theory Spec2Isabelle
  imports Complex_Main "HOL-Library.Sublist"
begin

section \<open>Exceptions\<close>

text \<open>
  Python exceptions that the observability code raises or catches. Every value of this
  type stands for an instance of a subclass of \<open>Exception\<close>, which is what the
  \<open>except Exception\<close> handlers of the source catch. \<open>ValueError\<close> is the one raised by
  \<open>generate_histogram_buckets\<close> and by \<open>math.log\<close>; \<open>Raised\<close> is any other exception
  coming out of user callables, the meter, an instrument or the file system.
\<close>

datatype exn = ValueError | AttributeError | TypeError | Raised string

section \<open>Strings\<close>

text \<open>
  Python \<open>str\<close> values are lists of characters; a \<open>char\<close> stands for a code point
  below 256. \<open>lower\<close> is \<open>str.lower()\<close> on that range, \<open>py_in sub s\<close> is
  \<open>sub in s\<close>, \<open>strip\<close> is \<open>str.strip()\<close> (it removes the characters for which
  \<open>str.isspace()\<close> holds), and \<open>split sep s\<close> is \<open>s.split(sep)\<close> for a separator of
  one character.
\<close>

definition lower_char :: "char \<Rightarrow> char" where
  "lower_char c =
     (let n = (of_char c :: nat)
      in if (65 \<le> n \<and> n \<le> 90) \<or> (192 \<le> n \<and> n \<le> 222 \<and> n \<noteq> 215)
         then char_of (n + 32) else c)"

definition lower :: "string \<Rightarrow> string" where
  "lower s = map lower_char s"

fun py_in :: "string \<Rightarrow> string \<Rightarrow> bool" where
  "py_in sub [] = (sub = [])"
| "py_in sub (c # cs) = (prefix sub (c # cs) \<or> py_in sub cs)"

definition isspace :: "char \<Rightarrow> bool" where
  "isspace c =
     (let n = (of_char c :: nat)
      in (9 \<le> n \<and> n \<le> 13) \<or> (28 \<le> n \<and> n \<le> 32) \<or> n = 133 \<or> n = 160)"

definition strip :: "string \<Rightarrow> string" where
  "strip s = rev (dropWhile isspace (rev (dropWhile isspace s)))"

fun split :: "char \<Rightarrow> string \<Rightarrow> string list" where
  "split sep [] = [[]]"
| "split sep (c # cs) =
     (if c = sep then [] # split sep cs
      else (case split sep cs of
              w # ws \<Rightarrow> (c # w) # ws
            | [] \<Rightarrow> [[c]]))"

section \<open>Histogram bucket generation (registry.py)\<close>

text \<open>
  \<open>generate_histogram_buckets(num_buckets, min_val, max_val)\<close>. Python floats are
  modelled as real numbers: \<open>math.log\<close> is \<open>ln\<close>, \<open>math.exp\<close> is \<open>exp\<close>. The
  definition is the formula of the source in exact arithmetic. Two things that double
  precision adds are not represented: rounding (boundaries whose exact values are closer
  than the spacing of doubles can come out equal) and the \<open>OverflowError\<close> of the
  int-to-float conversion for a \<open>num_buckets\<close> beyond the float range. \<open>math.log\<close>
  raises \<open>ValueError\<close> on a non-positive argument; after the clamp of \<open>min_val\<close> only
  \<open>max_val\<close> can be non-positive.
\<close>

definition generate_histogram_buckets :: "int \<Rightarrow> real \<Rightarrow> real \<Rightarrow> exn + real list" where
  "generate_histogram_buckets num_buckets min_val max_val =
     (if num_buckets < 2 then Inl ValueError
      else
        let min_val' = (if min_val \<le> 0 then 0.1 else min_val);
            num_boundaries = num_buckets - 1;
            log_min = ln min_val'
        in if max_val \<le> 0 then Inl ValueError
           else
             let log_max = ln max_val;
                 log_step = (log_max - log_min) / of_int num_boundaries
             in Inr (map (\<lambda>i. exp (log_min + of_nat i * log_step))
                       [0 ..< nat num_boundaries]))"

text \<open>Strictly increasing lists, by index.\<close>

definition strictly_increasing :: "real list \<Rightarrow> bool" where
  "strictly_increasing xs = sorted_wrt (<) xs"

section \<open>Effects: calls on external objects, logging, exceptions\<close>

text \<open>
  The registry talks to three kinds of external objects: OpenTelemetry meters,
  the instruments they create, and the module logger. A run is described by the list
  of calls it makes on them, in order, together with its outcome: \<open>Inl e\<close> when the
  exception \<open>e\<close> leaves the function, \<open>Inr a\<close> when it returns \<open>a\<close>.

  A logging call is recorded with its level and the strings interpolated into its
  message (the target name and the metric name); the numbers and exception texts in the
  message are not represented.
\<close>

datatype level = Debug | Info | Warning | Error

datatype event =
    Create_counter nat string
  | Create_histogram nat string "real list"
  | Create_observable_gauge nat string
  | Call_value_fn string
  | Add nat real
  | Record nat real
  | Log level "string list"

type_synonym 'a comp = "event list \<times> (exn + 'a)"

definition cret :: "'a \<Rightarrow> 'a comp" where
  "cret a = ([], Inr a)"

definition emit :: "event \<Rightarrow> unit comp" where
  "emit ev = ([ev], Inr ())"

definition cbind :: "'a comp \<Rightarrow> ('a \<Rightarrow> 'b comp) \<Rightarrow> 'b comp" where
  "cbind m f =
     (case m of
        (es, Inl e) \<Rightarrow> (es, Inl e)
      | (es, Inr a) \<Rightarrow> (case f a of (es', r) \<Rightarrow> (es @ es', r)))"

text \<open>\<open>try: m except Exception as e: h(e)\<close>.\<close>

definition try_except :: "'a comp \<Rightarrow> (exn \<Rightarrow> 'a comp) \<Rightarrow> 'a comp" where
  "try_except m h =
     (case m of
        (es, Inl e) \<Rightarrow> (case h e of (es', r) \<Rightarrow> (es @ es', r))
      | (es, Inr a) \<Rightarrow> (es, Inr a))"

section \<open>Instruments, meters and metric specifications\<close>

text \<open>
  An instrument is an object with an identity and the methods \<open>add\<close> and \<open>record\<close>;
  \<open>add_fails i v = Some e\<close> says that \<open>i.add(v)\<close> raises \<open>e\<close>, \<open>None\<close> that it returns.
  Instruments are ordinary objects, so they are truthy. A meter is an object with an
  identity and the three factory methods the registry uses; each of them returns an
  instrument or raises.
\<close>

record instrument =
  inst_id :: nat
  add_fails :: "real \<Rightarrow> exn option"
  record_fails :: "real \<Rightarrow> exn option"

record meter =
  meter_id :: nat
  create_counter :: "string \<Rightarrow> exn + instrument"
  create_histogram :: "string \<Rightarrow> real list \<Rightarrow> exn + instrument"
  create_observable_gauge :: "string \<Rightarrow> exn + instrument"

text \<open>
  Modelled from the spec: the declaration of \<open>MetricSpec\<close> (specs.py), which is not among
  the sources. The fields are those of the specification's record, with the Python types
  the registry and the tests use: \<open>instrument\<close> and \<open>target\<close> are strings that the
  registry compares with string literals, \<open>value_fn\<close> is a callable returning a number
  or \<open>None\<close> (or raising), \<open>boundaries\<close> is optional, and \<open>otel_inst\<close> is the attribute
  \<open>_otel_inst\<close>: \<open>None\<close> until the registry stores the two-slot list
  \<open>[openlineage_instrument, otel_instrument]\<close> in it. The type \<open>'d\<close> is the type of
  the frame data.
\<close>

record 'd metric_spec =
  name :: string
  instrument :: string
  value_fn :: "'d \<Rightarrow> exn + real option"
  export_mode :: string
  target :: string
  boundaries :: "real list option"
  num_buckets :: int
  otel_inst :: "(instrument option \<times> instrument option) option"

section \<open>TelemetryRegistry (registry.py)\<close>

definition log :: "level \<Rightarrow> string list \<Rightarrow> unit comp" where
  "log l args = emit (Log l args)"

text \<open>The three factory calls and the two instrument calls, each recorded as an event.\<close>

definition call_create_counter :: "meter \<Rightarrow> string \<Rightarrow> instrument comp" where
  "call_create_counter m n = ([Create_counter (meter_id m) n], create_counter m n)"

definition call_create_histogram :: "meter \<Rightarrow> string \<Rightarrow> real list \<Rightarrow> instrument comp" where
  "call_create_histogram m n bs = ([Create_histogram (meter_id m) n bs], create_histogram m n bs)"

definition call_create_observable_gauge :: "meter \<Rightarrow> string \<Rightarrow> instrument comp" where
  "call_create_observable_gauge m n =
     ([Create_observable_gauge (meter_id m) n], create_observable_gauge m n)"

definition call_add :: "instrument \<Rightarrow> real \<Rightarrow> unit comp" where
  "call_add i v =
     ([Add (inst_id i) v], case add_fails i v of None \<Rightarrow> Inr () | Some e \<Rightarrow> Inl e)"

definition call_record :: "instrument \<Rightarrow> real \<Rightarrow> unit comp" where
  "call_record i v =
     ([Record (inst_id i) v], case record_fails i v of None \<Rightarrow> Inr () | Some e \<Rightarrow> Inl e)"

definition call_value_fn :: "'d metric_spec \<Rightarrow> 'd \<Rightarrow> (real option) comp" where
  "call_value_fn spec d = ([Call_value_fn (name spec)], value_fn spec d)"

text \<open>
  The \<open>if\<close>/\<open>elif\<close> chain of \<open>_create_instrument\<close> that chooses the domain of the
  auto-generated boundaries from the lower-cased metric name, in the order of the source.
\<close>

definition auto_boundaries :: "string \<Rightarrow> int \<Rightarrow> exn + real list" where
  "auto_boundaries nm n =
     (if py_in ''confidence'' (lower nm) then generate_histogram_buckets n 0.0 1.0
      else if py_in ''detection'' (lower nm) then generate_histogram_buckets n 0.0 50.0
      else if py_in ''frame'' (lower nm) then generate_histogram_buckets n 0.0 100.0
      else if py_in ''time'' (lower nm) \<or> py_in ''latency'' (lower nm)
        then generate_histogram_buckets n 0.0 10.0
      else if py_in ''size'' (lower nm) \<or> py_in ''ratio'' (lower nm)
        then generate_histogram_buckets n 0.0 2.0
      else generate_histogram_buckets n 0.0 100.0)"

text \<open>\<open>_create_instrument(meter, spec, target_name)\<close>; \<open>None\<close> is the result for an
  unknown instrument type.\<close>

definition create_instrument ::
  "meter \<Rightarrow> 'd metric_spec \<Rightarrow> string \<Rightarrow> (instrument option) comp" where
  "create_instrument m spec target_name =
     (if instrument spec = ''counter'' then
        cbind (call_create_counter m (name spec)) (\<lambda>i.
        cbind (log Info [target_name, name spec]) (\<lambda>_.
        cret (Some i)))
      else if instrument spec = ''histogram'' then
        cbind (case boundaries spec of
                 Some bs \<Rightarrow> cbind (log Info [target_name, name spec]) (\<lambda>_. cret bs)
               | None \<Rightarrow>
                   cbind ([], auto_boundaries (name spec) (num_buckets spec)) (\<lambda>bs.
                   cbind (log Info [target_name, name spec]) (\<lambda>_. cret bs))) (\<lambda>bs.
        cbind (call_create_histogram m (name spec) bs) (\<lambda>i.
        cret (Some i)))
      else if instrument spec = ''gauge'' then
        cbind (call_create_observable_gauge m (name spec)) (\<lambda>i.
        cbind (log Info [target_name, name spec]) (\<lambda>_.
        cret (Some i)))
      else
        cbind (log Warning [instrument spec, name spec]) (\<lambda>_. cret None))"

text \<open>
  \<open>_create_instruments(spec)\<close>. The body runs inside \<open>try\<close>: the slots are first set to
  \<open>[None, None]\<close>, then filled one after the other, and an exception leaves the slots as
  they are at that moment and is logged. The function returns the events and the spec
  as mutated.
\<close>

definition create_instruments ::
  "meter \<Rightarrow> meter \<Rightarrow> 'd metric_spec \<Rightarrow> event list \<times> 'd metric_spec" where
  "create_instruments mtr omtr spec =
     (let spec0 = spec\<lparr>otel_inst := Some (None, None)\<rparr>
      in case (if target spec0 \<in> set [''openlineage'', ''both'']
               then create_instrument mtr spec0 ''OpenLineage''
               else cret None) of
           (es1, Inl e) \<Rightarrow> (es1 @ [Log Error [name spec0]], spec0)
         | (es1, Inr ol) \<Rightarrow>
             (let spec1 = spec0\<lparr>otel_inst := Some (ol, None)\<rparr>
              in case (if target spec1 \<in> set [''otel'', ''both'']
                       then create_instrument omtr spec1 ''OTEL''
                       else cret None) of
                   (es2, Inl e) \<Rightarrow> (es1 @ es2 @ [Log Error [name spec1]], spec1)
                 | (es2, Inr otel) \<Rightarrow>
                     (es1 @ es2, spec1\<lparr>otel_inst := Some (ol, otel)\<rparr>)))"

text \<open>
  The registry object and its constructor. \<open>otel_meter\<close> defaults to \<open>None\<close>, in which
  case the one meter serves both targets. The constructor logs the registered names when
  the list is not empty and creates the instruments of each spec in order.
\<close>

record 'd telemetry_registry =
  specs :: "'d metric_spec list"
  reg_meter :: meter
  reg_otel_meter :: meter

fun create_all ::
  "meter \<Rightarrow> meter \<Rightarrow> 'd metric_spec list \<Rightarrow> event list \<times> 'd metric_spec list" where
  "create_all mtr omtr [] = ([], [])"
| "create_all mtr omtr (s # ss) =
     (case create_instruments mtr omtr s of (es, s') \<Rightarrow>
        (case create_all mtr omtr ss of (es', ss') \<Rightarrow> (es @ es', s' # ss')))"

definition init ::
  "meter \<Rightarrow> 'd metric_spec list \<Rightarrow> meter option \<Rightarrow> event list \<times> 'd telemetry_registry" where
  "init mtr sps otel_mtr =
     (let omtr = (case otel_mtr of None \<Rightarrow> mtr | Some m \<Rightarrow> m);
          es0 = (if sps \<noteq> [] then [Log Info (map name sps)] else [])
      in case create_all mtr omtr sps of (es, sps') \<Rightarrow>
           (es0 @ es, \<lparr>specs = sps', reg_meter = mtr, reg_otel_meter = omtr\<rparr>))"

text \<open>\<open>_record_to_instrument(instrument, spec, val, target_name)\<close>.\<close>

definition record_to_instrument ::
  "instrument \<Rightarrow> 'd metric_spec \<Rightarrow> real \<Rightarrow> string \<Rightarrow> unit comp" where
  "record_to_instrument i spec val target_name =
     (if instrument spec = ''counter'' then
        cbind (call_add i val) (\<lambda>_. log Debug [target_name, name spec])
      else if instrument spec = ''histogram'' then
        cbind (call_record i val) (\<lambda>_. log Debug [target_name, name spec])
      else if instrument spec = ''gauge'' then
        log Debug [target_name, name spec]
      else cret ())"

text \<open>
  The body of the \<open>try\<close> block of \<open>record\<close> for one spec (\<open>continue\<close> ends it), the
  block with its handler, and the loop over the specs.
\<close>

definition record_body :: "'d metric_spec \<Rightarrow> 'd \<Rightarrow> unit comp" where
  "record_body spec frame_data =
     (case otel_inst spec of
        None \<Rightarrow> cret ()
      | Some (None, None) \<Rightarrow> cret ()
      | Some (ol_instrument, otel_instrument) \<Rightarrow>
          cbind (call_value_fn spec frame_data) (\<lambda>val.
            case val of
              None \<Rightarrow> cret ()
            | Some v \<Rightarrow>
                cbind (case ol_instrument of
                         Some i \<Rightarrow> record_to_instrument i spec v ''OpenLineage''
                       | None \<Rightarrow> cret ()) (\<lambda>_.
                case otel_instrument of
                  Some i \<Rightarrow> record_to_instrument i spec v ''OTEL''
                | None \<Rightarrow> cret ())))"

definition record_spec :: "'d metric_spec \<Rightarrow> 'd \<Rightarrow> unit comp" where
  "record_spec spec frame_data =
     try_except (record_body spec frame_data) (\<lambda>e. log Error [name spec])"

fun record_loop :: "'d metric_spec list \<Rightarrow> 'd \<Rightarrow> unit comp" where
  "record_loop [] frame_data = cret ()"
| "record_loop (spec # rest) frame_data =
     cbind (record_spec spec frame_data) (\<lambda>_. record_loop rest frame_data)"

definition registry_record :: "'d telemetry_registry \<Rightarrow> 'd \<Rightarrow> unit comp" where
  "registry_record reg frame_data = record_loop (specs reg) frame_data"

section \<open>Reading a trace\<close>

text \<open>
  The calls made on instruments and on meters, the instruments a spec owns (its
  populated slots, OpenLineage first), and what a slot holds after an attempt to create
  its instrument: the instrument returned, or nothing when the attempt raised or returned
  \<open>None\<close>.
\<close>

fun is_instrument_call :: "event \<Rightarrow> bool" where
  "is_instrument_call (Add i v) = True"
| "is_instrument_call (Record i v) = True"
| "is_instrument_call ev = False"

definition instrument_calls :: "event list \<Rightarrow> event list" where
  "instrument_calls es = filter is_instrument_call es"

fun is_meter_call :: "event \<Rightarrow> bool" where
  "is_meter_call (Create_counter m n) = True"
| "is_meter_call (Create_histogram m n bs) = True"
| "is_meter_call (Create_observable_gauge m n) = True"
| "is_meter_call ev = False"

definition meter_calls :: "event list \<Rightarrow> event list" where
  "meter_calls es = filter is_meter_call es"

fun slots :: "(instrument option \<times> instrument option) option \<Rightarrow> instrument list" where
  "slots None = []"
| "slots (Some (a, b)) =
     (case a of None \<Rightarrow> [] | Some i \<Rightarrow> [i]) @ (case b of None \<Rightarrow> [] | Some i \<Rightarrow> [i])"

definition slot_of :: "exn + instrument option \<Rightarrow> instrument option" where
  "slot_of r = (case r of Inl e \<Rightarrow> None | Inr x \<Rightarrow> x)"

text \<open>
  Instrument creation for a spec on a meter succeeds with the instrument \<open>i\<close>: the
  spec's instrument type is one of the three known ones and the meter's factory method
  for it returns \<open>i\<close>; for a histogram the factory is called with the explicit
  boundaries, or with the generated ones, and generation must not raise.
\<close>

definition creates :: "meter \<Rightarrow> 'd metric_spec \<Rightarrow> instrument \<Rightarrow> bool" where
  "creates m s i =
     (if instrument s = ''counter'' then create_counter m (name s) = Inr i
      else if instrument s = ''histogram'' then
        (case boundaries s of
           Some bs \<Rightarrow> create_histogram m (name s) bs = Inr i
         | None \<Rightarrow>
             (case auto_boundaries (name s) (num_buckets s) of
                Inl e \<Rightarrow> False
              | Inr bs \<Rightarrow> create_histogram m (name s) bs = Inr i))
      else if instrument s = ''gauge'' then create_observable_gauge m (name s) = Inr i
      else False)"

text \<open>
  The calls that reach a list of instruments when the same method is called on each in
  turn with the value \<open>v\<close> and the first call that raises ends the sequence.
\<close>

fun deliver ::
  "(nat \<Rightarrow> real \<Rightarrow> event) \<Rightarrow> (instrument \<Rightarrow> real \<Rightarrow> exn option) \<Rightarrow> instrument list \<Rightarrow> real
     \<Rightarrow> event list" where
  "deliver call fails [] v = []"
| "deliver call fails (i # rest) v =
     call (inst_id i) v
       # (case fails i v of None \<Rightarrow> deliver call fails rest v | Some e \<Rightarrow> [])"

text \<open>
  The table of domains as the specification words it, applied to a name as given: the
  upper end of the domain for a name containing \<open>confidence\<close>, \<open>detection\<close>, \<open>time\<close> or
  \<open>latency\<close>, \<open>size\<close> or \<open>ratio\<close>, and for any other name. The lower end is always 0.
\<close>

definition claimed_domain :: "string \<Rightarrow> real" where
  "claimed_domain nm =
     (if py_in ''confidence'' nm then 1
      else if py_in ''detection'' nm then 50
      else if py_in ''time'' nm \<or> py_in ''latency'' nm then 10
      else if py_in ''size'' nm \<or> py_in ''ratio'' nm then 2
      else 100)"

section \<open>Test doubles and example specs\<close>

text \<open>
  Objects in the style of the repository's tests (test_telemetry.py): meters whose factory
  methods return fixed instruments, instruments whose calls return or raise, and a few
  metric specs. The meter \<open>k\<close> hands out the instruments \<open>10k+1\<close> (counter), \<open>10k+2\<close>
  (histogram) and \<open>10k+3\<close> (gauge).
\<close>

definition mock_instrument :: "nat \<Rightarrow> instrument" where
  "mock_instrument k = \<lparr>inst_id = k, add_fails = (\<lambda>v. None), record_fails = (\<lambda>v. None)\<rparr>"

definition failing_instrument :: "nat \<Rightarrow> instrument" where
  "failing_instrument k =
     \<lparr>inst_id = k, add_fails = (\<lambda>v. Some (Raised ''add'')),
      record_fails = (\<lambda>v. Some (Raised ''record''))\<rparr>"

definition mock_meter :: "nat \<Rightarrow> meter" where
  "mock_meter k =
     \<lparr>meter_id = k,
      create_counter = (\<lambda>n. Inr (mock_instrument (10 * k + 1))),
      create_histogram = (\<lambda>n bs. Inr (mock_instrument (10 * k + 2))),
      create_observable_gauge = (\<lambda>n. Inr (mock_instrument (10 * k + 3)))\<rparr>"

definition failing_meter :: "nat \<Rightarrow> meter" where
  "failing_meter k =
     \<lparr>meter_id = k,
      create_counter = (\<lambda>n. Inr (failing_instrument (10 * k + 1))),
      create_histogram = (\<lambda>n bs. Inr (failing_instrument (10 * k + 2))),
      create_observable_gauge = (\<lambda>n. Inr (failing_instrument (10 * k + 3)))\<rparr>"

type_synonym frame_data = "(string \<times> string) list"

definition test_data :: frame_data where
  "test_data = [(''test'', ''data'')]"

definition dual_counter :: "frame_data metric_spec" where
  "dual_counter =
     \<lparr>name = ''dual_counter'', instrument = ''counter'', value_fn = (\<lambda>d. Inr (Some 1)),
      export_mode = ''aggregated'', target = ''both'', boundaries = None, num_buckets = 10,
      otel_inst = None\<rparr>"

definition test_histogram :: "frame_data metric_spec" where
  "test_histogram =
     \<lparr>name = ''test_histogram'', instrument = ''histogram'',
      value_fn = (\<lambda>d. Inr (Some (of_nat (length d)))),
      export_mode = ''aggregated'', target = ''openlineage'', boundaries = Some [0, 1, 2, 5],
      num_buckets = 10, otel_inst = None\<rparr>"

definition one_bucket_histogram :: "frame_data metric_spec" where
  "one_bucket_histogram =
     \<lparr>name = ''items'', instrument = ''histogram'',
      value_fn = (\<lambda>d. Inr (Some (of_nat (length d)))),
      export_mode = ''aggregated'', target = ''both'', boundaries = None, num_buckets = 1,
      otel_inst = None\<rparr>"

definition frame_time_histogram :: "frame_data metric_spec" where
  "frame_time_histogram =
     \<lparr>name = ''frame_time'', instrument = ''histogram'', value_fn = (\<lambda>d. Inr (Some 3)),
      export_mode = ''aggregated'', target = ''otel'', boundaries = None, num_buckets = 3,
      otel_inst = None\<rparr>"

definition queue_gauge :: "frame_data metric_spec" where
  "queue_gauge =
     \<lparr>name = ''queue_depth'', instrument = ''gauge'', value_fn = (\<lambda>d. Inr (Some 3)),
      export_mode = ''aggregated'', target = ''both'', boundaries = None, num_buckets = 10,
      otel_inst = None\<rparr>"

definition broken_counter :: "frame_data metric_spec" where
  "broken_counter =
     \<lparr>name = ''broken'', instrument = ''counter'',
      value_fn = (\<lambda>d. Inl (Raised ''KeyError'')),
      export_mode = ''aggregated'', target = ''both'', boundaries = None, num_buckets = 10,
      otel_inst = None\<rparr>"

definition registry_of :: "frame_data metric_spec list \<Rightarrow> frame_data telemetry_registry" where
  "registry_of sps = snd (init (mock_meter 1) sps (Some (mock_meter 2)))"

definition dual_counter_registered :: "frame_data metric_spec" where
  "dual_counter_registered =
     dual_counter\<lparr>otel_inst := Some (Some (mock_instrument 11), Some (mock_instrument 21))\<rparr>"

section \<open>Allowlist configuration (config.py)\<close>

text \<open>
  What \<open>yaml.safe_load\<close> returns: \<open>None\<close>, booleans, numbers, strings, lists and
  mappings (a list of key/value pairs with distinct keys). \<open>hashable\<close> is the type of the
  elements of the Python set that \<open>read_allowlist\<close> returns: \<open>set(...)\<close> identifies
  elements that are equal in Python, so \<open>True\<close>, \<open>1\<close> and \<open>1.0\<close> are one element, and it
  raises \<open>TypeError\<close> on a list or a mapping as element.
\<close>

datatype yaml =
    YNull
  | YBool bool
  | YInt int
  | YFloat real
  | YStr string
  | YList "yaml list"
  | YDict "(yaml \<times> yaml) list"

datatype hashable = HNone | HNum real | HStr string

fun hash_key :: "yaml \<Rightarrow> hashable option" where
  "hash_key YNull = Some HNone"
| "hash_key (YBool b) = Some (HNum (if b then 1 else 0))"
| "hash_key (YInt i) = Some (HNum (of_int i))"
| "hash_key (YFloat r) = Some (HNum r)"
| "hash_key (YStr s) = Some (HStr s)"
| "hash_key (YList xs) = None"
| "hash_key (YDict kvs) = None"

text \<open>
  \<open>config.get(k, dflt)\<close>: only a mapping has the method, any other document raises
  \<open>AttributeError\<close>. \<open>set(v)\<close>: iterates a list, a string (its characters) or a mapping
  (its keys) and raises \<open>TypeError\<close> on a value that is not iterable or on an element that
  is not hashable.
\<close>

fun dict_get :: "yaml \<Rightarrow> string \<Rightarrow> yaml \<Rightarrow> exn + yaml" where
  "dict_get (YDict kvs) k dflt =
     Inr (case map_of kvs (YStr k) of Some v \<Rightarrow> v | None \<Rightarrow> dflt)"
| "dict_get y k dflt = Inl AttributeError"

fun py_set :: "yaml \<Rightarrow> exn + hashable set" where
  "py_set (YList xs) =
     (case those (map hash_key xs) of None \<Rightarrow> Inl TypeError | Some hs \<Rightarrow> Inr (set hs))"
| "py_set (YStr s) = Inr (set (map (\<lambda>c. HStr [c]) s))"
| "py_set (YDict kvs) =
     (case those (map (hash_key \<circ> fst) kvs) of
        None \<Rightarrow> Inl TypeError
      | Some hs \<Rightarrow> Inr (set hs))"
| "py_set y = Inl TypeError"

text \<open>
  \<open>read_allowlist()\<close>. Its inputs are the process environment (\<open>os.getenv\<close>) and the
  file system seen through \<open>open\<close> followed by \<open>yaml.safe_load\<close>: \<open>load path\<close> is the
  parsed document, or the exception raised by opening or parsing. The three parts are
  the body of the \<open>try\<close> block, the parsing of the environment variable, and the whole
  function, which returns the lines it printed and the set.
\<close>

definition read_file_allowlist :: "(string \<Rightarrow> exn + yaml) \<Rightarrow> string \<Rightarrow> exn + hashable set" where
  "read_file_allowlist load path =
     (case load path of
        Inl e \<Rightarrow> Inl e
      | Inr config \<Rightarrow>
          (case dict_get config ''safe_metrics'' (YList []) of
             Inl e \<Rightarrow> Inl e
           | Inr v \<Rightarrow> py_set v))"

definition parse_env_allowlist :: "string \<Rightarrow> hashable set" where
  "parse_env_allowlist env =
     set (map HStr (filter (\<lambda>n. n \<noteq> []) (map strip (split CHR '','' env))))"

definition read_env_allowlist :: "(string \<rightharpoonup> string) \<Rightarrow> hashable set" where
  "read_env_allowlist environ =
     (case environ ''OF_SAFE_METRICS'' of
        None \<Rightarrow> {}
      | Some env \<Rightarrow> if env = [] then {} else parse_env_allowlist env)"

datatype printed = Print_warning string

definition read_allowlist ::
  "(string \<rightharpoonup> string) \<Rightarrow> (string \<Rightarrow> exn + yaml) \<Rightarrow> printed list \<times> hashable set" where
  "read_allowlist environ load =
     (case environ ''OF_SAFE_METRICS_FILE'' of
        None \<Rightarrow> ([], read_env_allowlist environ)
      | Some path \<Rightarrow>
          if path = [] then ([], read_env_allowlist environ)
          else (case read_file_allowlist load path of
                  Inr s \<Rightarrow> ([], s)
                | Inl e \<Rightarrow> ([Print_warning path], read_env_allowlist environ)))"

text \<open>Example file systems and environments.\<close>

definition no_files :: "string \<Rightarrow> exn + yaml" where
  "no_files path = Inl (Raised ''FileNotFoundError'')"

definition allowlist_files :: "string \<Rightarrow> exn + yaml" where
  "allowlist_files path =
     (if path = ''allow.yaml''
        then Inr (YDict [(YStr ''safe_metrics'', YList [YStr ''frames_processed''])])
      else if path = ''empty.yaml'' then Inr YNull
      else Inl (Raised ''FileNotFoundError''))"

definition env_only :: "string \<rightharpoonup> string" where
  "env_only = [''OF_SAFE_METRICS'' \<mapsto> ''metric1, metric2 , metric3'']"

definition env_and_file :: "string \<Rightarrow> (string \<rightharpoonup> string)" where
  "env_and_file path = [''OF_SAFE_METRICS'' \<mapsto> ''metric1'', ''OF_SAFE_METRICS_FILE'' \<mapsto> path]"

section \<open>Side-channel frames of the worker\<close>

text \<open>
  Modelled from the spec: the frame type of the filter runtime, which is not among the
  sources. Of the specification's frame (image, format tag, metadata, data mapping) the
  model keeps the optional integer \<open>meta.id\<close> of the metadata and the data mapping; a
  frame set maps topics to frames.
\<close>

record frame =
  meta_id :: "int option"
  data :: "(string \<times> int) list"

type_synonym frame_set = "(string \<times> frame) list"

text \<open>
  Modelled from the spec: the worker's emission of the \<open>_filter\<close> frame (section 4.5),
  part of the filter runtime's worker loop, which is not among the sources (only its tests
  are). One \<open>_filter\<close> frame is emitted per tick; it carries the logical frame ID under
  \<open>id\<close>: the \<open>meta.id\<close> of the first input frame that provides one; otherwise the value
  of a per-worker counter that starts at 0 and advances by one on every tick.
\<close>

record worker =
  frame_counter :: nat

definition new_worker :: worker where
  "new_worker = \<lparr>frame_counter = 0\<rparr>"

definition provided_ids :: "frame_set \<Rightarrow> int list" where
  "provided_ids frames = List.map_filter (\<lambda>tf. meta_id (snd tf)) frames"

definition filter_frame :: "worker \<Rightarrow> frame_set \<Rightarrow> frame \<times> worker" where
  "filter_frame w frames =
     (\<lparr>meta_id = None,
       data = [(''id'', case provided_ids frames of
                          i # rest \<Rightarrow> i
                        | [] \<Rightarrow> int (frame_counter w))]\<rparr>,
      w\<lparr>frame_counter := frame_counter w + 1\<rparr>)"

fun run_ticks :: "worker \<Rightarrow> frame_set list \<Rightarrow> frame list" where
  "run_ticks w [] = []"
| "run_ticks w (frames # ticks) =
     (case filter_frame w frames of (f, w') \<Rightarrow> f # run_ticks w' ticks)"

definition filter_id :: "frame \<Rightarrow> int option" where
  "filter_id f = map_of (data f) ''id''"

text \<open>
  Modelled from the spec: the worker's \<open>_metrics\<close> frame (section 4.5), part of the
  filter runtime, which is not among the sources. The worker samples timestamp, FPS,
  CPU, memory, in- and out-latency, uptime ticks, cumulative frame count and cumulative
  megapixels, packages them under the keys of section 8, and merges the configured
  \<open>extra_metrics\<close> into the frame.
\<close>

datatype scalar = SFloat real | SInt int | SStr string

record metrics_sample =
  sample_ts :: real
  sample_fps :: real
  sample_cpu :: real
  sample_mem :: int
  sample_lat_in :: real
  sample_lat_out :: real
  sample_uptime_count :: int
  sample_frame_count :: int
  sample_megapx_count :: real

definition metrics_data :: "metrics_sample \<Rightarrow> (string \<times> scalar) list \<Rightarrow> (string \<rightharpoonup> scalar)" where
  "metrics_data smp extra_metrics =
     map_of
       [(''ts'', SFloat (sample_ts smp)),
        (''fps'', SFloat (sample_fps smp)),
        (''cpu'', SFloat (sample_cpu smp)),
        (''mem'', SInt (sample_mem smp)),
        (''lat_in'', SFloat (sample_lat_in smp)),
        (''lat_out'', SFloat (sample_lat_out smp)),
        (''uptime_count'', SInt (sample_uptime_count smp)),
        (''frame_count'', SInt (sample_frame_count smp)),
        (''megapx_count'', SFloat (sample_megapx_count smp))]
     ++ map_of extra_metrics"

text \<open>Example frames, as in the tests of the \<open>_filter\<close> topic.\<close>

definition frame_with_id :: frame where
  "frame_with_id = \<lparr>meta_id = Some 42, data = []\<rparr>"

definition frame_without_id :: frame where
  "frame_without_id = \<lparr>meta_id = None, data = []\<rparr>"

section \<open>Proofs\<close>

lemma sorted_wrt_map_upt:
  assumes "\<And>i j. i < j \<Longrightarrow> j < n \<Longrightarrow> f i < (f j :: real)"
  shows "sorted_wrt (<) (map f [0 ..< n])"
  using assms by (simp add: sorted_wrt_iff_nth_less)

text \<open>
  In exact arithmetic, for \<open>N \<ge> 2\<close> and \<open>max(min_val, 0.1) < max_val\<close> the formula
  gives (without raising) a list of exactly \<open>N - 1\<close> boundaries, strictly increasing.
  This is a statement about the formula only; it does not carry over to the rounded
  values that the code computes in double precision.
\<close>

lemma generate_histogram_buckets_real:
  assumes "2 \<le> N" and "max min_val 0.1 < max_val"
  shows "\<exists>bs. generate_histogram_buckets N min_val max_val = Inr bs
            \<and> int (length bs) = N - 1 \<and> strictly_increasing bs"
proof -
  define lo where "lo = (if min_val \<le> 0 then 0.1 else min_val)"
  define st where "st = (ln max_val - ln lo) / of_int (N - 1)"
  have lo_pos: "0 < lo" by (simp add: lo_def)
  have lo_lt: "lo < max_val" using assms(2) by (simp add: lo_def split: if_splits)
  have mx_pos: "0 < max_val" using lo_pos lo_lt by linarith
  have "ln lo < ln max_val" using lo_pos lo_lt by simp
  then have st_pos: "0 < st" using assms(1) by (simp add: st_def)
  have eq: "generate_histogram_buckets N min_val max_val
              = Inr (map (\<lambda>i. exp (ln lo + of_nat i * st)) [0 ..< nat (N - 1)])"
    using assms(1) mx_pos by (simp add: generate_histogram_buckets_def Let_def lo_def st_def)
  have len: "int (length (map (\<lambda>i. exp (ln lo + of_nat i * st)) [0 ..< nat (N - 1)])) = N - 1"
    using assms(1) by simp
  have inc: "strictly_increasing (map (\<lambda>i. exp (ln lo + of_nat i * st)) [0 ..< nat (N - 1)])"
    unfolding strictly_increasing_def
  proof (rule sorted_wrt_map_upt)
    fix i j :: nat
    assume "i < j"
    then have "of_nat i * st < of_nat j * st" using st_pos by simp
    then show "exp (ln lo + of_nat i * st) < exp (ln lo + of_nat j * st)" by simp
  qed
  from eq len inc show ?thesis by blast
qed

lemma generate_histogram_buckets_real_example:
  "(2::int) \<le> 10 \<and> max (0::real) 0.1 < 100
   \<and> (\<exists>bs. generate_histogram_buckets 10 0 100 = Inr bs
            \<and> int (length bs) = 10 - 1 \<and> strictly_increasing bs)"
proof -
  have h1: "(2::int) \<le> 10" by simp
  have h2: "max (0::real) 0.1 < 100" by simp
  show ?thesis using h1 h2 generate_histogram_buckets_real [OF h1 h2] by simp
qed

subsection \<open>The recording loop\<close>

lemma record_spec_outcome:
  "record_spec s d =
     (fst (record_body s d)
        @ (case snd (record_body s d) of Inl e \<Rightarrow> [Log Error [name s]] | Inr u \<Rightarrow> []),
      Inr ())"
  by (cases "record_body s d"; cases "snd (record_body s d)")
     (auto simp: record_spec_def try_except_def log_def emit_def)

lemma record_loop_trace:
  "record_loop ss d = (concat (map (\<lambda>s. fst (record_spec s d)) ss), Inr ())"
proof (induction ss)
  case Nil
  show ?case by (simp add: cret_def)
next
  case (Cons s ss)
  have "record_spec s d = (fst (record_spec s d), Inr ())"
    by (simp add: record_spec_outcome)
  then obtain es where es: "record_spec s d = (es, Inr ())" ..
  show ?case by (simp add: cbind_def es Cons.IH)
qed

lemma fst_cbind:
  "fst (cbind m f) = fst m @ (case snd m of Inl e \<Rightarrow> [] | Inr a \<Rightarrow> fst (f a))"
  by (cases m; cases "snd m") (auto simp: cbind_def split: prod.splits)

lemma snd_cbind:
  "snd (cbind m f) = (case snd m of Inl e \<Rightarrow> Inl e | Inr a \<Rightarrow> snd (f a))"
  by (cases m; cases "snd m") (auto simp: cbind_def split: prod.splits)

lemma instrument_calls_append [simp]:
  "instrument_calls (xs @ ys) = instrument_calls xs @ instrument_calls ys"
  by (simp add: instrument_calls_def)

lemma set_instrument_calls: "set (instrument_calls es) \<subseteq> set es"
  by (auto simp: instrument_calls_def)

lemma instrument_calls_record_to_instrument:
  "instrument_calls (fst (record_to_instrument i s v tn)) =
     (if instrument s = ''counter'' then [Add (inst_id i) v]
      else if instrument s = ''histogram'' then [Record (inst_id i) v]
      else [])"
  by (auto simp: record_to_instrument_def cbind_def call_add_def call_record_def log_def
        emit_def cret_def instrument_calls_def split: option.splits)

lemma record_to_instrument_outcome:
  "snd (record_to_instrument i s v tn) =
     (if instrument s = ''counter''
        then (case add_fails i v of None \<Rightarrow> Inr () | Some e \<Rightarrow> Inl e)
      else if instrument s = ''histogram''
        then (case record_fails i v of None \<Rightarrow> Inr () | Some e \<Rightarrow> Inl e)
      else Inr ())"
  by (auto simp: record_to_instrument_def cbind_def call_add_def call_record_def log_def
        emit_def cret_def split: option.splits)

lemma record_body_no_instruments:
  "slots (otel_inst s) = [] \<Longrightarrow> record_body s d = ([], Inr ())"
  by (cases "otel_inst s") (auto simp: record_body_def cret_def split: option.splits)

lemma record_body_with_instruments:
  assumes "slots (otel_inst s) \<noteq> []"
  shows "\<exists>rest. fst (record_body s d) = Call_value_fn (name s) # rest
           \<and> instrument_calls rest =
               (case value_fn s d of
                  Inl e \<Rightarrow> []
                | Inr None \<Rightarrow> []
                | Inr (Some v) \<Rightarrow>
                    if instrument s = ''counter''
                      then deliver Add add_fails (slots (otel_inst s)) v
                    else if instrument s = ''histogram''
                      then deliver Record record_fails (slots (otel_inst s)) v
                    else [])"
proof -
  obtain a b where ab: "otel_inst s = Some (a, b)" and ne: "a \<noteq> None \<or> b \<noteq> None"
    using assms by (cases "otel_inst s") (auto split: option.splits)
  have nil: "instrument_calls [] = []" by (simp add: instrument_calls_def)
  show ?thesis using ab ne
    by (cases a; cases b)
       (auto simp: record_body_def fst_cbind snd_cbind call_value_fn_def cret_def nil
          instrument_calls_record_to_instrument record_to_instrument_outcome
          split: option.splits sum.splits)
qed

lemma concat_map_split:
  assumes "s \<in> set ss"
  shows "\<exists>pre post. concat (map f ss) = pre @ f s @ post"
proof -
  obtain xs ys where "ss = xs @ s # ys"
    using assms by (auto simp: in_set_conv_decomp)
  then have "concat (map f ss) = concat (map f xs) @ f s @ concat (map f ys)" by simp
  then show ?thesis by blast
qed

lemma record_trace_of_spec:
  assumes "s \<in> set (specs reg)" and "slots (otel_inst s) \<noteq> []"
  shows "\<exists>pre rest post.
           fst (registry_record reg d) = pre @ (Call_value_fn (name s) # rest) @ post
         \<and> instrument_calls rest =
             (case value_fn s d of
                Inl e \<Rightarrow> []
              | Inr None \<Rightarrow> []
              | Inr (Some v) \<Rightarrow>
                  if instrument s = ''counter''
                    then deliver Add add_fails (slots (otel_inst s)) v
                  else if instrument s = ''histogram''
                    then deliver Record record_fails (slots (otel_inst s)) v
                  else [])"
proof -
  obtain rest0 where r0: "fst (record_body s d) = Call_value_fn (name s) # rest0"
    and c0: "instrument_calls rest0 =
             (case value_fn s d of
                Inl e \<Rightarrow> []
              | Inr None \<Rightarrow> []
              | Inr (Some v) \<Rightarrow>
                  if instrument s = ''counter''
                    then deliver Add add_fails (slots (otel_inst s)) v
                  else if instrument s = ''histogram''
                    then deliver Record record_fails (slots (otel_inst s)) v
                  else [])"
    using record_body_with_instruments [OF assms(2), of d] by blast
  define errs where
    "errs = (case snd (record_body s d) of Inl e \<Rightarrow> [Log Error [name s]] | Inr u \<Rightarrow> [])"
  have errs_calls: "instrument_calls errs = []"
    by (simp add: errs_def instrument_calls_def split: sum.splits)
  have part: "fst (record_spec s d) = Call_value_fn (name s) # (rest0 @ errs)"
    by (simp add: record_spec_outcome r0 errs_def)
  obtain pre post where
    "concat (map (\<lambda>s. fst (record_spec s d)) (specs reg)) = pre @ fst (record_spec s d) @ post"
    using concat_map_split [OF assms(1)] by blast
  then have "fst (registry_record reg d)
               = pre @ (Call_value_fn (name s) # (rest0 @ errs)) @ post"
    by (simp add: registry_record_def record_loop_trace part)
  moreover have "instrument_calls (rest0 @ errs) = instrument_calls rest0"
    by (simp add: errs_calls)
  ultimately show ?thesis using c0 by metis
qed

lemma deliver_no_failure:
  "list_all (\<lambda>i. fails i v = None) is
     \<Longrightarrow> deliver call fails is v = map (\<lambda>i. call (inst_id i) v) is"
  by (induction "is") auto

lemma counter_delivered:
  assumes "s \<in> set (specs reg)" and "value_fn s d = Inr (Some v)"
    and "instrument s = ''counter''"
    and ok: "list_all (\<lambda>i. add_fails i v = None) (slots (otel_inst s))"
  shows "list_all (\<lambda>i. Add (inst_id i) v \<in> set (fst (registry_record reg d)))
           (slots (otel_inst s))"
proof (cases "slots (otel_inst s) = []")
  case True
  then show ?thesis by simp
next
  case False
  obtain pre rest post where
    tr: "fst (registry_record reg d) = pre @ (Call_value_fn (name s) # rest) @ post"
    and r: "instrument_calls rest = deliver Add add_fails (slots (otel_inst s)) v"
    using record_trace_of_spec [OF assms(1) False, of d] assms(2,3) by auto
  have "set (map (\<lambda>i. Add (inst_id i) v) (slots (otel_inst s))) \<subseteq> set rest"
    using set_instrument_calls [of rest]
    by (simp add: r deliver_no_failure [of add_fails, OF ok])
  then show ?thesis by (auto simp: list_all_iff tr)
qed

lemma histogram_delivered:
  assumes "s \<in> set (specs reg)" and "value_fn s d = Inr (Some v)"
    and "instrument s = ''histogram''"
    and ok: "list_all (\<lambda>i. record_fails i v = None) (slots (otel_inst s))"
  shows "list_all (\<lambda>i. Record (inst_id i) v \<in> set (fst (registry_record reg d)))
           (slots (otel_inst s))"
proof (cases "slots (otel_inst s) = []")
  case True
  then show ?thesis by simp
next
  case False
  obtain pre rest post where
    tr: "fst (registry_record reg d) = pre @ (Call_value_fn (name s) # rest) @ post"
    and r: "instrument_calls rest = deliver Record record_fails (slots (otel_inst s)) v"
    using record_trace_of_spec [OF assms(1) False, of d] assms(2,3) by auto
  have "set (map (\<lambda>i. Record (inst_id i) v) (slots (otel_inst s))) \<subseteq> set rest"
    using set_instrument_calls [of rest]
    by (simp add: r deliver_no_failure [of record_fails, OF ok])
  then show ?thesis by (auto simp: list_all_iff tr)
qed

text \<open>Unfolding the model on the example objects.\<close>

lemmas run_defs =
  init_def create_instruments_def create_instrument_def cbind_def cret_def
  auto_boundaries_def lower_def lower_char_def generate_histogram_buckets_def log_def emit_def
  registry_record_def record_spec_def record_body_def try_except_def call_create_counter_def
  call_value_fn_def record_to_instrument_def call_add_def call_record_def
  call_create_histogram_def call_create_observable_gauge_def
  mock_meter_def mock_instrument_def failing_meter_def failing_instrument_def
  dual_counter_def one_bucket_histogram_def queue_gauge_def broken_counter_def test_data_def
  instrument_calls_def registry_of_def dual_counter_registered_def

text \<open>
  C9: \<open>record\<close> never lets an exception out. Whatever the specs and the frame data, the
  call returns normally, and its trace is, spec after spec in the order of the list, the
  events of that spec's \<open>try\<close> body followed by one error log when the body raised: a
  failing spec is logged and the specs after it are processed all the same.
\<close>

theorem registry_record_never_raises:
  "snd (registry_record reg d) = Inr ()
   \<and> fst (registry_record reg d) =
       concat (map (\<lambda>s. fst (record_body s d)
                          @ (case snd (record_body s d) of
                               Inl e \<Rightarrow> [Log Error [name s]]
                             | Inr u \<Rightarrow> []))
                   (specs reg))"
  by (simp add: registry_record_def record_loop_trace record_spec_outcome)

theorem registry_record_never_raises_witness:
  "snd (registry_record (registry_of [broken_counter, dual_counter]) test_data) = Inr ()
   \<and> fst (registry_record (registry_of [broken_counter, dual_counter]) test_data)
       = [Call_value_fn ''broken'', Log Error [''broken''],
          Call_value_fn ''dual_counter'',
          Add 11 1, Log Debug [''OpenLineage'', ''dual_counter''],
          Add 21 1, Log Debug [''OTEL'', ''dual_counter'']]"
proof -
  have body: "record_body (broken_counter\<lparr>otel_inst :=
                  Some (Some (mock_instrument 11), Some (mock_instrument 21))\<rparr>) test_data
                = ([Call_value_fn ''broken''], Inl (Raised ''KeyError''))"
    "record_body dual_counter_registered test_data
       = ([Call_value_fn ''dual_counter'',
           Add 11 1, Log Debug [''OpenLineage'', ''dual_counter''],
           Add 21 1, Log Debug [''OTEL'', ''dual_counter'']], Inr ())"
    by (simp_all add: run_defs)
  have sp: "specs (registry_of [broken_counter, dual_counter])
              = [broken_counter\<lparr>otel_inst :=
                   Some (Some (mock_instrument 11), Some (mock_instrument 21))\<rparr>,
                 dual_counter_registered]"
    by (simp add: run_defs)
  have nm: "name broken_counter = ''broken''"
    by (simp add: broken_counter_def)
  show ?thesis
    using registry_record_never_raises
            [of "registry_of [broken_counter, dual_counter]" test_data, unfolded sp]
    by (simp add: body nm)
qed

subsection \<open>What record does for one spec\<close>

lemma record_spec_no_instruments:
  "slots (otel_inst s) = [] \<Longrightarrow> record_spec s d = ([], Inr ())"
  by (simp add: record_spec_outcome record_body_no_instruments)

lemma record_spec_with_instruments:
  assumes "slots (otel_inst s) \<noteq> []"
  shows "\<exists>rest. fst (record_spec s d) = Call_value_fn (name s) # rest
           \<and> instrument_calls rest =
               (case value_fn s d of
                  Inl e \<Rightarrow> []
                | Inr None \<Rightarrow> []
                | Inr (Some v) \<Rightarrow>
                    if instrument s = ''counter''
                      then deliver Add add_fails (slots (otel_inst s)) v
                    else if instrument s = ''histogram''
                      then deliver Record record_fails (slots (otel_inst s)) v
                    else [])"
proof -
  obtain rest0 where r0: "fst (record_body s d) = Call_value_fn (name s) # rest0"
    and c0: "instrument_calls rest0 =
             (case value_fn s d of
                Inl e \<Rightarrow> []
              | Inr None \<Rightarrow> []
              | Inr (Some v) \<Rightarrow>
                  if instrument s = ''counter''
                    then deliver Add add_fails (slots (otel_inst s)) v
                  else if instrument s = ''histogram''
                    then deliver Record record_fails (slots (otel_inst s)) v
                  else [])"
    using record_body_with_instruments [OF assms, of d] by blast
  define errs where
    "errs = (case snd (record_body s d) of Inl e \<Rightarrow> [Log Error [name s]] | Inr u \<Rightarrow> [])"
  have "instrument_calls errs = []"
    by (simp add: errs_def instrument_calls_def split: sum.splits)
  then have "instrument_calls (rest0 @ errs) = instrument_calls rest0"
    by simp
  moreover have "fst (record_spec s d) = Call_value_fn (name s) # (rest0 @ errs)"
    by (simp add: record_spec_outcome r0 errs_def)
  ultimately show ?thesis using c0 by metis
qed

text \<open>
  C1, as amended. The trace of \<open>record(d)\<close> is the concatenation, in the order of the
  registry's list, of one segment per spec (the events of that spec's loop iteration),
  and for every spec:
  \<^item> a spec that owns no instrument has the empty segment: it is skipped, its \<open>value_fn\<close>
    is not called;
  \<^item> a spec that owns at least one instrument has a segment that starts with the call of
    its \<open>value_fn\<close> on \<open>d\<close>, and the instrument calls in the rest of the segment are:
    none when \<open>value_fn\<close> raises or returns \<open>None\<close>; for a number \<open>v\<close> and a counter
    spec, \<open>add(v)\<close> on the spec's instruments, for a histogram spec \<open>record(v)\<close> on
    them, the OpenLineage slot first and the OTEL slot only if the first call did not
    raise.
  Nothing is stated about what a gauge spec's instruments receive.
\<close>

theorem record_value_fn_and_instruments:
  "fst (registry_record reg d) = concat (map (\<lambda>s. fst (record_spec s d)) (specs reg))
   \<and> (\<forall>s. slots (otel_inst s) = [] \<longrightarrow> fst (record_spec s d) = [])
   \<and> (\<forall>s. slots (otel_inst s) \<noteq> [] \<longrightarrow>
         (\<exists>rest. fst (record_spec s d) = Call_value_fn (name s) # rest
            \<and> (case value_fn s d of
                  Inl e \<Rightarrow> instrument_calls rest = []
                | Inr None \<Rightarrow> instrument_calls rest = []
                | Inr (Some v) \<Rightarrow>
                    (instrument s = ''counter'' \<longrightarrow>
                       instrument_calls rest
                         = deliver Add add_fails (slots (otel_inst s)) v)
                  \<and> (instrument s = ''histogram'' \<longrightarrow>
                       instrument_calls rest
                         = deliver Record record_fails (slots (otel_inst s)) v))))"
proof (intro conjI allI impI)
  show "fst (registry_record reg d) = concat (map (\<lambda>s. fst (record_spec s d)) (specs reg))"
    by (simp add: registry_record_def record_loop_trace)
next
  fix s :: "'a metric_spec"
  assume "slots (otel_inst s) = []"
  then show "fst (record_spec s d) = []"
    by (simp add: record_spec_no_instruments)
next
  fix s :: "'a metric_spec"
  assume "slots (otel_inst s) \<noteq> []"
  then obtain rest where r: "fst (record_spec s d) = Call_value_fn (name s) # rest"
    and c: "instrument_calls rest =
               (case value_fn s d of
                  Inl e \<Rightarrow> []
                | Inr None \<Rightarrow> []
                | Inr (Some v) \<Rightarrow>
                    if instrument s = ''counter''
                      then deliver Add add_fails (slots (otel_inst s)) v
                    else if instrument s = ''histogram''
                      then deliver Record record_fails (slots (otel_inst s)) v
                    else [])"
    using record_spec_with_instruments [of s d] by blast
  have "case value_fn s d of
          Inl e \<Rightarrow> instrument_calls rest = []
        | Inr None \<Rightarrow> instrument_calls rest = []
        | Inr (Some v) \<Rightarrow>
            (instrument s = ''counter'' \<longrightarrow>
               instrument_calls rest = deliver Add add_fails (slots (otel_inst s)) v)
          \<and> (instrument s = ''histogram'' \<longrightarrow>
               instrument_calls rest = deliver Record record_fails (slots (otel_inst s)) v)"
    using c by (auto split: sum.splits option.splits)
  with r show "\<exists>rest. fst (record_spec s d) = Call_value_fn (name s) # rest
            \<and> (case value_fn s d of
                  Inl e \<Rightarrow> instrument_calls rest = []
                | Inr None \<Rightarrow> instrument_calls rest = []
                | Inr (Some v) \<Rightarrow>
                    (instrument s = ''counter'' \<longrightarrow>
                       instrument_calls rest
                         = deliver Add add_fails (slots (otel_inst s)) v)
                  \<and> (instrument s = ''histogram'' \<longrightarrow>
                       instrument_calls rest
                         = deliver Record record_fails (slots (otel_inst s)) v))"
    by blast
qed

text \<open>
  The theorem at a registry of two specs: a histogram that owns no instrument (bucket
  generation raised at construction) and a counter with both instruments. The whole
  trace of \<open>record\<close> is the counter's segment, whose instrument calls are \<open>add(1)\<close> on
  the instruments 11 and 21.
\<close>

theorem record_value_fn_and_instruments_witness:
  "specs (registry_of [one_bucket_histogram, dual_counter])
     = [one_bucket_histogram\<lparr>otel_inst := Some (None, None)\<rparr>, dual_counter_registered]
   \<and> slots (otel_inst (one_bucket_histogram\<lparr>otel_inst := Some (None, None)\<rparr>)) = []
   \<and> slots (otel_inst dual_counter_registered) \<noteq> []
   \<and> value_fn dual_counter_registered test_data = Inr (Some 1)
   \<and> instrument dual_counter_registered = ''counter''
   \<and> (\<exists>rest. fst (registry_record (registry_of [one_bucket_histogram, dual_counter])
                     test_data)
                = Call_value_fn ''dual_counter'' # rest
            \<and> instrument_calls rest = [Add 11 1, Add 21 1])"
proof -
  let ?h = "one_bucket_histogram\<lparr>otel_inst := Some (None, None)\<rparr>"
  let ?reg = "registry_of [one_bucket_histogram, dual_counter]"
  have sp: "specs ?reg = [?h, dual_counter_registered]"
    by (simp add: run_defs)
  have h1: "slots (otel_inst ?h) = []" by simp
  have h2: "slots (otel_inst dual_counter_registered) \<noteq> []"
    by (simp add: dual_counter_registered_def)
  have v: "value_fn dual_counter_registered test_data = Inr (Some 1)"
    and i: "instrument dual_counter_registered = ''counter''"
    and n: "name dual_counter_registered = ''dual_counter''"
    by (simp_all add: dual_counter_registered_def dual_counter_def)
  have dl: "deliver Add add_fails (slots (otel_inst dual_counter_registered)) 1
              = [Add 11 1, Add 21 1]"
    by (simp add: dual_counter_registered_def mock_instrument_def)
  note t = record_value_fn_and_instruments [of ?reg test_data]
  have tr: "fst (registry_record ?reg test_data)
          = fst (record_spec ?h test_data) @ fst (record_spec dual_counter_registered test_data)"
    using t by (simp add: sp)
  have skip: "fst (record_spec ?h test_data) = []"
    using t h1 by blast
  obtain rest where r: "fst (record_spec dual_counter_registered test_data)
                          = Call_value_fn (name dual_counter_registered) # rest"
    and c: "case value_fn dual_counter_registered test_data of
              Inl e \<Rightarrow> instrument_calls rest = []
            | Inr None \<Rightarrow> instrument_calls rest = []
            | Inr (Some v) \<Rightarrow>
                (instrument dual_counter_registered = ''counter'' \<longrightarrow>
                   instrument_calls rest
                     = deliver Add add_fails (slots (otel_inst dual_counter_registered)) v)
              \<and> (instrument dual_counter_registered = ''histogram'' \<longrightarrow>
                   instrument_calls rest
                     = deliver Record record_fails (slots (otel_inst dual_counter_registered)) v)"
    using t h2 by blast
  from c have "instrument_calls rest = [Add 11 1, Add 21 1]"
    by (simp add: v i dl)
  moreover have "fst (registry_record ?reg test_data) = Call_value_fn ''dual_counter'' # rest"
    by (simp add: tr skip r n)
  ultimately show ?thesis using sp h1 h2 v i by blast
qed

text \<open>
  The claim as stated fails in three ways. A histogram spec with \<open>num_buckets = 1\<close> and no
  boundaries is registered but owns no instrument, and \<open>record\<close> skips it without calling
  its \<open>value_fn\<close>. A gauge spec that owns two instruments and whose \<open>value_fn\<close> returns 3
  gets two debug log lines and no call on either instrument, so no gauge value is
  updated. A counter whose OpenLineage instrument raises in \<open>add\<close> never has \<open>add\<close>
  called on its OTEL instrument.
\<close>

theorem record_value_fn_and_instruments_counterexample:
  "fst (registry_record (registry_of [one_bucket_histogram]) test_data) = []
   \<and> fst (registry_record (registry_of [queue_gauge]) test_data)
       = [Call_value_fn ''queue_depth'', Log Debug [''OpenLineage'', ''queue_depth''],
          Log Debug [''OTEL'', ''queue_depth'']]
   \<and> fst (registry_record (snd (init (failing_meter 1) [dual_counter] (Some (mock_meter 2))))
            test_data)
       = [Call_value_fn ''dual_counter'', Add 11 1, Log Error [''dual_counter'']]"
  by (simp add: run_defs)

subsection \<open>Instrument creation\<close>

lemma create_instrument_ignores_slots:
  "create_instrument m (s\<lparr>otel_inst := x\<rparr>) tn = create_instrument m s tn"
  by (simp add: create_instrument_def cong: option.case_cong)

lemma create_instruments_result:
  "snd (create_instruments mtr omtr s) =
     s\<lparr>otel_inst := Some
         (if target s \<in> {''openlineage'', ''both''}
            then slot_of (snd (create_instrument mtr s ''OpenLineage'')) else None,
          if target s \<in> {''otel'', ''both''}
             \<and> \<not> (target s = ''both'' \<and> isl (snd (create_instrument mtr s ''OpenLineage'')))
            then slot_of (snd (create_instrument omtr s ''OTEL'')) else None)\<rparr>"
  by (cases "create_instrument mtr s ''OpenLineage''";
      cases "snd (create_instrument mtr s ''OpenLineage'')";
      cases "create_instrument omtr s ''OTEL''";
      cases "snd (create_instrument omtr s ''OTEL'')")
     (auto simp: create_instruments_def create_instrument_ignores_slots cret_def slot_of_def
        Let_def)

lemma create_all_specs:
  "snd (create_all mtr omtr ss) = map (\<lambda>s. snd (create_instruments mtr omtr s)) ss"
  by (induction ss) (auto split: prod.splits)

lemma init_specs:
  "specs (snd (init mtr sps om)) =
     map (\<lambda>s. snd (create_instruments mtr (case om of None \<Rightarrow> mtr | Some m \<Rightarrow> m) s)) sps"
  using create_all_specs [of mtr "case om of None \<Rightarrow> mtr | Some m \<Rightarrow> m" sps]
  by (auto simp: init_def Let_def split: prod.splits)

lemma create_instrument_result:
  "snd (create_instrument m s tn) =
     (if instrument s = ''counter'' then map_sum id Some (create_counter m (name s))
      else if instrument s = ''histogram'' then
        (case boundaries s of
           Some bs \<Rightarrow> map_sum id Some (create_histogram m (name s) bs)
         | None \<Rightarrow>
             (case auto_boundaries (name s) (num_buckets s) of
                Inl e \<Rightarrow> Inl e
              | Inr bs \<Rightarrow> map_sum id Some (create_histogram m (name s) bs)))
      else if instrument s = ''gauge''
        then map_sum id Some (create_observable_gauge m (name s))
      else Inr None)"
  by (auto simp: create_instrument_def snd_cbind call_create_counter_def
        call_create_histogram_def call_create_observable_gauge_def log_def emit_def cret_def
        split: sum.splits option.splits)

lemma map_sum_Some_cases:
  "map_sum id Some r = Inr (Some i) \<longleftrightarrow> r = Inr i"
  "map_sum id Some r = Inl e \<longleftrightarrow> r = Inl e"
  "map_sum id Some r \<noteq> Inr None"
  "isl (map_sum id Some r) \<longleftrightarrow> isl r"
  by (cases r; simp)+

lemma slot_of_creates:
  "slot_of (snd (create_instrument m s tn)) = Some i \<longleftrightarrow> creates m s i"
proof -
  have "slot_of r = Some i \<longleftrightarrow> r = Inr (Some i)" for r :: "exn + instrument option"
    by (cases r) (simp_all add: slot_of_def)
  then show ?thesis
    by (auto simp: create_instrument_result creates_def map_sum_Some_cases
          split: sum.splits option.splits)
qed

lemma creates_not_raised:
  "creates m s i \<Longrightarrow> \<not> isl (snd (create_instrument m s tn))"
  by (auto simp: create_instrument_result creates_def map_sum_Some_cases
        split: sum.splits option.splits if_splits)

lemma creates_other_meter:
  assumes "creates m s j" and "\<not> isl (snd (create_instrument m' s tn))"
  shows "\<exists>i. creates m' s i"
proof -
  have r: "\<not> isl r \<Longrightarrow> \<exists>i. r = Inr i" for r :: "exn + instrument"
    by (cases r) simp_all
  have "\<exists>i. snd (create_instrument m' s tn) = Inr (Some i)"
    using assms
    by (auto simp: create_instrument_result creates_def map_sum_Some_cases dest: r
          split: sum.splits option.splits if_splits)
  then obtain i where "slot_of (snd (create_instrument m' s tn)) = Some i"
    by (auto simp: slot_of_def)
  then show ?thesis by (auto simp: slot_of_creates)
qed

lemma auto_boundaries_returns:
  "2 \<le> n \<Longrightarrow> \<exists>bs. auto_boundaries nm n = Inr bs"
  by (simp add: auto_boundaries_def generate_histogram_buckets_def Let_def)

lemma auto_boundaries_raises:
  "n < 2 \<Longrightarrow> auto_boundaries nm n = Inl ValueError"
  by (simp add: auto_boundaries_def generate_histogram_buckets_def)

text \<open>
  C4, as amended: after construction the registry holds the same specs in the same order,
  each with a two-slot list, so with zero, one or two instruments. The OpenLineage slot
  holds the instrument \<open>i\<close> exactly when the target is \<open>openlineage\<close> or \<open>both\<close> and
  creation on the business meter succeeds with \<open>i\<close>. The OTEL slot holds \<open>j\<close> exactly
  when the target is \<open>otel\<close> and creation on the OTEL meter succeeds with \<open>j\<close>, or the
  target is \<open>both\<close>, creation on the OTEL meter succeeds with \<open>j\<close> and creation on the
  business meter succeeded too. Creation succeeds when the instrument type is counter,
  histogram or gauge, bucket generation (for a histogram without explicit boundaries)
  does not raise, and the meter's factory method returns the instrument. For a counter
  (histogram) spec whose \<open>value_fn\<close> returns a number \<open>v\<close>, \<open>record\<close> calls \<open>add(v)\<close>
  (\<open>record(v)\<close>) on every populated slot, provided none of these calls raises.
\<close>

theorem init_slots_per_target:
  assumes "k < length sps"
  shows "\<exists>ol otel.
      length (specs (snd (init mtr sps om))) = length sps
    \<and> specs (snd (init mtr sps om)) ! k = (sps ! k)\<lparr>otel_inst := Some (ol, otel)\<rparr>
    \<and> (\<forall>i. ol = Some i \<longleftrightarrow>
              target (sps ! k) \<in> {''openlineage'', ''both''} \<and> creates mtr (sps ! k) i)
    \<and> (\<forall>j. otel = Some j \<longleftrightarrow>
              (target (sps ! k) = ''otel''
                 \<and> creates (case om of None \<Rightarrow> mtr | Some m \<Rightarrow> m) (sps ! k) j)
            \<or> (target (sps ! k) = ''both''
                 \<and> creates (case om of None \<Rightarrow> mtr | Some m \<Rightarrow> m) (sps ! k) j
                 \<and> (\<exists>i. creates mtr (sps ! k) i)))
    \<and> (\<forall>v. value_fn (sps ! k) d = Inr (Some v) \<longrightarrow>
          (instrument (sps ! k) = ''counter''
             \<and> list_all (\<lambda>i. add_fails i v = None) (slots (Some (ol, otel))) \<longrightarrow>
           list_all (\<lambda>i. Add (inst_id i) v
                          \<in> set (fst (registry_record (snd (init mtr sps om)) d)))
             (slots (Some (ol, otel))))
        \<and> (instrument (sps ! k) = ''histogram''
             \<and> list_all (\<lambda>i. record_fails i v = None) (slots (Some (ol, otel))) \<longrightarrow>
           list_all (\<lambda>i. Record (inst_id i) v
                          \<in> set (fst (registry_record (snd (init mtr sps om)) d)))
             (slots (Some (ol, otel)))))"
proof -
  define omtr where "omtr = (case om of None \<Rightarrow> mtr | Some m \<Rightarrow> m)"
  define reg where "reg = snd (init mtr sps om)"
  define s where "s = sps ! k"
  define ol where "ol = (if target s \<in> {''openlineage'', ''both''}
            then slot_of (snd (create_instrument mtr s ''OpenLineage'')) else None)"
  define otel where "otel = (if target s \<in> {''otel'', ''both''}
             \<and> \<not> (target s = ''both'' \<and> isl (snd (create_instrument mtr s ''OpenLineage'')))
            then slot_of (snd (create_instrument omtr s ''OTEL'')) else None)"
  define s' where "s' = s\<lparr>otel_inst := Some (ol, otel)\<rparr>"
  have len: "length (specs reg) = length sps"
    by (simp add: reg_def init_specs)
  have nth: "specs reg ! k = s'"
    using assms
    by (simp add: reg_def init_specs create_instruments_result s'_def ol_def otel_def s_def
          omtr_def)
  have mem: "s' \<in> set (specs reg)"
    using assms len nth by (metis nth_mem)
  have t1: "\<forall>i. ol = Some i \<longleftrightarrow> target s \<in> {''openlineage'', ''both''} \<and> creates mtr s i"
    by (simp add: ol_def slot_of_creates)
  have t2: "otel = Some j \<longleftrightarrow>
              (target s = ''otel'' \<and> creates omtr s j)
            \<or> (target s = ''both'' \<and> creates omtr s j \<and> (\<exists>i. creates mtr s i))" for j
  proof (cases "target s = ''both''")
    case True
    show ?thesis
    proof (cases "isl (snd (create_instrument mtr s ''OpenLineage''))")
      case raised: True
      then have "\<not> creates mtr s i" for i
        using creates_not_raised [of mtr s i "''OpenLineage''"] by blast
      then show ?thesis using True raised by (simp add: otel_def)
    next
      case False
      then have "creates omtr s j \<Longrightarrow> \<exists>i. creates mtr s i"
        using creates_other_meter [of omtr s j mtr "''OpenLineage''"] by blast
      then show ?thesis using True False by (auto simp: otel_def slot_of_creates)
    qed
  next
    case False
    then show ?thesis by (auto simp: otel_def slot_of_creates)
  qed
  have sl: "slots (otel_inst s') = slots (Some (ol, otel))" by (simp add: s'_def)
  have t5: "\<forall>v. value_fn s d = Inr (Some v) \<longrightarrow>
          (instrument s = ''counter''
             \<and> list_all (\<lambda>i. add_fails i v = None) (slots (Some (ol, otel))) \<longrightarrow>
           list_all (\<lambda>i. Add (inst_id i) v \<in> set (fst (registry_record reg d)))
             (slots (Some (ol, otel))))
        \<and> (instrument s = ''histogram''
             \<and> list_all (\<lambda>i. record_fails i v = None) (slots (Some (ol, otel))) \<longrightarrow>
           list_all (\<lambda>i. Record (inst_id i) v \<in> set (fst (registry_record reg d)))
             (slots (Some (ol, otel))))"
  proof (intro allI impI conjI)
    fix v
    assume v: "value_fn s d = Inr (Some v)"
      and c: "instrument s = ''counter''
              \<and> list_all (\<lambda>i. add_fails i v = None) (slots (Some (ol, otel)))"
    have "value_fn s' d = Inr (Some v)" "instrument s' = ''counter''"
      using v c by (simp_all add: s'_def)
    from counter_delivered [OF mem this] c
    show "list_all (\<lambda>i. Add (inst_id i) v \<in> set (fst (registry_record reg d)))
            (slots (Some (ol, otel)))"
      by (simp only: sl)
  next
    fix v
    assume v: "value_fn s d = Inr (Some v)"
      and c: "instrument s = ''histogram''
              \<and> list_all (\<lambda>i. record_fails i v = None) (slots (Some (ol, otel)))"
    have "value_fn s' d = Inr (Some v)" "instrument s' = ''histogram''"
      using v c by (simp_all add: s'_def)
    from histogram_delivered [OF mem this] c
    show "list_all (\<lambda>i. Record (inst_id i) v \<in> set (fst (registry_record reg d)))
            (slots (Some (ol, otel)))"
      by (simp only: sl)
  qed
  have t2': "\<forall>j. otel = Some j \<longleftrightarrow>
              (target s = ''otel'' \<and> creates omtr s j)
            \<or> (target s = ''both'' \<and> creates omtr s j \<and> (\<exists>i. creates mtr s i))"
    using t2 by blast
  show ?thesis
    using len nth t1 t2' t5
    unfolding reg_def s_def s'_def omtr_def by blast
qed

text \<open>
  The theorem at the dual-target counter of the tests: both meters create their counter,
  so both slots are populated with them, and \<open>record\<close> calls \<open>add(1)\<close> on both.
\<close>

theorem init_slots_per_target_witness:
  "0 < length [dual_counter]
   \<and> target dual_counter = ''both''
   \<and> creates (mock_meter 1) dual_counter (mock_instrument 11)
   \<and> creates (mock_meter 2) dual_counter (mock_instrument 21)
   \<and> specs (registry_of [dual_counter]) ! 0 = dual_counter_registered
   \<and> Add 11 1 \<in> set (fst (registry_record (registry_of [dual_counter]) test_data))
   \<and> Add 21 1 \<in> set (fst (registry_record (registry_of [dual_counter]) test_data))"
proof -
  have h: "0 < length [dual_counter]" by simp
  have tg: "target dual_counter = ''both''" by (simp add: dual_counter_def)
  have c1: "creates (mock_meter 1) dual_counter (mock_instrument 11)"
    and c2: "creates (mock_meter 2) dual_counter (mock_instrument 21)"
    by (simp_all add: creates_def dual_counter_def mock_meter_def)
  obtain ol otel where
    a: "specs (snd (init (mock_meter 1) [dual_counter] (Some (mock_meter 2)))) ! 0
          = ([dual_counter] ! 0)\<lparr>otel_inst := Some (ol, otel)\<rparr>"
    and b: "\<forall>i. ol = Some i \<longleftrightarrow>
              target ([dual_counter] ! 0) \<in> {''openlineage'', ''both''}
              \<and> creates (mock_meter 1) ([dual_counter] ! 0) i"
    and c: "\<forall>j. otel = Some j \<longleftrightarrow>
              (target ([dual_counter] ! 0) = ''otel''
                 \<and> creates (case Some (mock_meter 2) of None \<Rightarrow> mock_meter 1 | Some m \<Rightarrow> m)
                      ([dual_counter] ! 0) j)
            \<or> (target ([dual_counter] ! 0) = ''both''
                 \<and> creates (case Some (mock_meter 2) of None \<Rightarrow> mock_meter 1 | Some m \<Rightarrow> m)
                      ([dual_counter] ! 0) j
                 \<and> (\<exists>i. creates (mock_meter 1) ([dual_counter] ! 0) i))"
    and e: "\<forall>v. value_fn ([dual_counter] ! 0) test_data = Inr (Some v) \<longrightarrow>
          (instrument ([dual_counter] ! 0) = ''counter''
             \<and> list_all (\<lambda>i. add_fails i v = None) (slots (Some (ol, otel))) \<longrightarrow>
           list_all (\<lambda>i. Add (inst_id i) v
               \<in> set (fst (registry_record
                       (snd (init (mock_meter 1) [dual_counter] (Some (mock_meter 2))))
                       test_data)))
             (slots (Some (ol, otel))))
        \<and> (instrument ([dual_counter] ! 0) = ''histogram''
             \<and> list_all (\<lambda>i. record_fails i v = None) (slots (Some (ol, otel))) \<longrightarrow>
           list_all (\<lambda>i. Record (inst_id i) v
               \<in> set (fst (registry_record
                       (snd (init (mock_meter 1) [dual_counter] (Some (mock_meter 2))))
                       test_data)))
             (slots (Some (ol, otel))))"
    using init_slots_per_target [OF h, of "mock_meter 1" "Some (mock_meter 2)" test_data]
    by blast
  have ol: "ol = Some (mock_instrument 11)"
    using b tg c1 by simp
  have otel: "otel = Some (mock_instrument 21)"
    using c tg c1 c2 by auto
  have v: "value_fn ([dual_counter] ! 0) test_data = Inr (Some 1)"
    and i: "instrument ([dual_counter] ! 0) = ''counter''"
    by (simp_all add: dual_counter_def)
  have ok: "list_all (\<lambda>i. add_fails i 1 = None) (slots (Some (ol, otel)))"
    by (simp add: ol otel mock_instrument_def)
  from e v i ok
  have "list_all (\<lambda>i. Add (inst_id i) 1
           \<in> set (fst (registry_record
                   (snd (init (mock_meter 1) [dual_counter] (Some (mock_meter 2))))
                   test_data)))
          (slots (Some (ol, otel)))"
    by blast
  then have "Add 11 1 \<in> set (fst (registry_record (registry_of [dual_counter]) test_data))"
    and "Add 21 1 \<in> set (fst (registry_record (registry_of [dual_counter]) test_data))"
    by (simp_all add: ol otel mock_instrument_def registry_of_def)
  with h tg c1 c2 a ol otel show ?thesis
    by (simp add: registry_of_def dual_counter_registered_def)
qed

text \<open>
  The claim as stated fails in two ways. A histogram spec with target \<open>both\<close>,
  \<open>num_buckets = 1\<close> and no boundaries has both slots empty after construction: bucket
  generation raises and \<open>_create_instruments\<close> catches the exception. A gauge spec has
  both slots populated, its \<open>value_fn\<close> returns 3, and \<open>record\<close> calls neither
  instrument.
\<close>

theorem init_slots_per_target_counterexample:
  "target one_bucket_histogram = ''both''
   \<and> otel_inst (specs (registry_of [one_bucket_histogram]) ! 0) = Some (None, None)
   \<and> otel_inst (specs (registry_of [queue_gauge]) ! 0)
       = Some (Some (mock_instrument 13), Some (mock_instrument 23))
   \<and> value_fn queue_gauge test_data = Inr (Some 3)
   \<and> instrument_calls (fst (registry_record (registry_of [queue_gauge]) test_data)) = []"
  by (simp add: run_defs)

subsection \<open>Histogram boundaries\<close>

lemma auto_boundaries_domain:
  "auto_boundaries nm n =
     generate_histogram_buckets n 0
       (if py_in ''frame'' (lower nm) \<and> \<not> py_in ''confidence'' (lower nm)
           \<and> \<not> py_in ''detection'' (lower nm)
        then 100 else claimed_domain (lower nm))"
  by (simp add: auto_boundaries_def claimed_domain_def)

lemma buckets_3:
  "0 < hi \<Longrightarrow>
   generate_histogram_buckets 3 0 hi
     = Inr [exp (ln (1/10)), exp (ln (1/10) + (ln hi - ln (1/10)) / 2)]"
  by (simp add: generate_histogram_buckets_def Let_def upt_rec numeral_nat)

text \<open>
  C3, as amended: when a histogram spec gives explicit boundaries, the one call on the
  meter is \<open>create_histogram\<close> with exactly these boundaries. Otherwise the boundaries are
  \<open>generate_histogram_buckets(num_buckets, 0, hi)\<close>, where \<open>hi\<close> is read from the
  lower-cased name: the table of the specification (\<open>confidence\<close> 1, \<open>detection\<close> 50,
  \<open>time\<close> or \<open>latency\<close> 10, \<open>size\<close> or \<open>ratio\<close> 2, otherwise 100) applied to the
  lower-cased name, except that a name with \<open>frame\<close> and neither \<open>confidence\<close> nor
  \<open>detection\<close> gets 100 whatever else it contains. When bucket generation raises, the
  exception leaves \<open>_create_instrument\<close> and no call is made on the meter.
\<close>

theorem histogram_boundaries_used:
  assumes "instrument s = ''histogram''"
  shows "(\<forall>bs. boundaries s = Some bs \<longrightarrow>
            meter_calls (fst (create_instrument m s tn))
              = [Create_histogram (meter_id m) (name s) bs])
       \<and> (boundaries s = None \<longrightarrow>
            (case generate_histogram_buckets (num_buckets s) 0
                    (if py_in ''frame'' (lower (name s))
                        \<and> \<not> py_in ''confidence'' (lower (name s))
                        \<and> \<not> py_in ''detection'' (lower (name s))
                     then 100 else claimed_domain (lower (name s))) of
               Inr bs \<Rightarrow> meter_calls (fst (create_instrument m s tn))
                          = [Create_histogram (meter_id m) (name s) bs]
             | Inl e \<Rightarrow> create_instrument m s tn = ([], Inl e)))"
proof (intro conjI allI impI)
  fix bs
  assume "boundaries s = Some bs"
  then show "meter_calls (fst (create_instrument m s tn))
               = [Create_histogram (meter_id m) (name s) bs]"
    using assms
    by (cases "create_histogram m (name s) bs")
       (simp_all add: create_instrument_def cbind_def log_def emit_def cret_def
          call_create_histogram_def meter_calls_def)
next
  assume n: "boundaries s = None"
  have "case auto_boundaries (name s) (num_buckets s) of
               Inr bs \<Rightarrow> meter_calls (fst (create_instrument m s tn))
                          = [Create_histogram (meter_id m) (name s) bs]
             | Inl e \<Rightarrow> create_instrument m s tn = ([], Inl e)"
  proof (cases "auto_boundaries (name s) (num_buckets s)")
    case (Inl e)
    then show ?thesis
      using assms n by (simp add: create_instrument_def cbind_def)
  next
    case (Inr bs)
    then show ?thesis
      using assms n
      by (cases "create_histogram m (name s) bs")
         (simp_all add: create_instrument_def cbind_def log_def emit_def cret_def
            call_create_histogram_def meter_calls_def)
  qed
  then show "case generate_histogram_buckets (num_buckets s) 0
                    (if py_in ''frame'' (lower (name s))
                        \<and> \<not> py_in ''confidence'' (lower (name s))
                        \<and> \<not> py_in ''detection'' (lower (name s))
                     then 100 else claimed_domain (lower (name s))) of
               Inr bs \<Rightarrow> meter_calls (fst (create_instrument m s tn))
                          = [Create_histogram (meter_id m) (name s) bs]
             | Inl e \<Rightarrow> create_instrument m s tn = ([], Inl e)"
    by (simp only: auto_boundaries_domain)
qed

theorem histogram_boundaries_used_witness:
  "instrument test_histogram = ''histogram''
   \<and> boundaries test_histogram = Some [0, 1, 2, 5]
   \<and> meter_calls (fst (create_instrument (mock_meter 1) test_histogram ''OpenLineage''))
       = [Create_histogram 1 ''test_histogram'' [0, 1, 2, 5]]"
proof -
  have h: "instrument test_histogram = ''histogram''"
    and b: "boundaries test_histogram = Some [0, 1, 2, 5]"
    and n: "name test_histogram = ''test_histogram''"
    by (simp_all add: test_histogram_def)
  have "meter_calls (fst (create_instrument (mock_meter 1) test_histogram ''OpenLineage''))
       = [Create_histogram (meter_id (mock_meter 1)) (name test_histogram) [0, 1, 2, 5]]"
    using histogram_boundaries_used [OF h, of "mock_meter 1" "''OpenLineage''"] b by blast
  with h b n show ?thesis by (simp add: mock_meter_def)
qed

text \<open>
  The claim as stated fails in two ways. The name \<open>frame_time\<close> contains \<open>time\<close>, for
  which the claim gives the domain [0,10]; the code reaches the \<open>frame\<close> branch first
  and passes the boundaries generated over [0,100], which differ. The name \<open>Latency\<close>
  does not contain \<open>latency\<close>, so the claim gives it [0,100]; the code lower-cases the
  name and generates over [0,10].
\<close>

theorem histogram_boundaries_used_counterexample:
  "instrument frame_time_histogram = ''histogram'' \<and> boundaries frame_time_histogram = None
   \<and> py_in ''time'' (name frame_time_histogram)
   \<and> claimed_domain (name frame_time_histogram) = 10
   \<and> meter_calls (fst (create_instrument (mock_meter 2) frame_time_histogram ''OTEL''))
       = [Create_histogram 2 ''frame_time''
            [exp (ln (1/10)), exp (ln (1/10) + (ln 100 - ln (1/10)) / 2)]]
   \<and> generate_histogram_buckets 3 0 100
       = Inr [exp (ln (1/10)), exp (ln (1/10) + (ln 100 - ln (1/10)) / 2)]
   \<and> generate_histogram_buckets 3 0 10
       \<noteq> Inr [exp (ln (1/10)), exp (ln (1/10) + (ln 100 - ln (1/10)) / 2)]
   \<and> claimed_domain ''Latency'' = 100
   \<and> auto_boundaries ''Latency'' 3 = generate_histogram_buckets 3 0 10
   \<and> generate_histogram_buckets 3 0 10 \<noteq> generate_histogram_buckets 3 0 100"
proof -
  have a: "py_in ''time'' (name frame_time_histogram)"
    "claimed_domain (name frame_time_histogram) = 10"
    "instrument frame_time_histogram = ''histogram''" "boundaries frame_time_histogram = None"
    by (simp_all add: frame_time_histogram_def claimed_domain_def)
  have ab: "auto_boundaries ''frame_time'' 3 = generate_histogram_buckets 3 0 100"
    by (simp add: auto_boundaries_def lower_def lower_char_def)
  have b: "meter_calls (fst (create_instrument (mock_meter 2) frame_time_histogram ''OTEL''))
       = [Create_histogram 2 ''frame_time''
            [exp (ln (1/10)), exp (ln (1/10) + (ln 100 - ln (1/10)) / 2)]]"
    by (simp add: create_instrument_def frame_time_histogram_def ab buckets_3 cbind_def
        cret_def log_def emit_def call_create_histogram_def mock_meter_def meter_calls_def)
  have "ln (100::real) \<noteq> ln 10" by simp
  then have c: "generate_histogram_buckets 3 0 10
       \<noteq> Inr [exp (ln (1/10)), exp (ln (1/10) + (ln 100 - ln (1/10)) / 2)]"
    by (simp add: buckets_3)
  have low: "lower ''Latency'' = ''latency''" by code_simp
  have d: "claimed_domain ''Latency'' = 100"
    "auto_boundaries ''Latency'' 3 = generate_histogram_buckets 3 0 10"
    by (simp_all add: claimed_domain_def auto_boundaries_def low)
  from a b c d buckets_3 [of 100] show ?thesis by simp
qed

subsection \<open>The allowlist\<close>

lemma parse_env_allowlist_empty: "parse_env_allowlist [] = {}"
  by (simp add: parse_env_allowlist_def strip_def)

lemma parse_env_allowlist_set:
  "parse_env_allowlist env = HStr ` (strip ` set (split CHR '','' env) - {[]})"
  by (auto simp: parse_env_allowlist_def)

lemma read_env_allowlist_Some:
  "environ ''OF_SAFE_METRICS'' = Some env
     \<Longrightarrow> read_env_allowlist environ = parse_env_allowlist env"
  by (simp add: read_env_allowlist_def parse_env_allowlist_empty)

lemma read_allowlist_fallback:
  assumes "environ ''OF_SAFE_METRICS_FILE'' = None
        \<or> environ ''OF_SAFE_METRICS_FILE'' = Some []
        \<or> (\<exists>path e. environ ''OF_SAFE_METRICS_FILE'' = Some path
              \<and> read_file_allowlist load path = Inl e)"
  shows "snd (read_allowlist environ load) = read_env_allowlist environ"
  using assms by (auto simp: read_allowlist_def split: option.splits sum.splits)

lemmas allowlist_defs =
  read_allowlist_def read_env_allowlist_def parse_env_allowlist_def read_file_allowlist_def
  strip_def isspace_def no_files_def allowlist_files_def env_only_def env_and_file_def

text \<open>
  C8, as amended: \<open>read_allowlist()\<close> returns the empty set when neither variable is
  set; when \<open>OF_SAFE_METRICS\<close> is set to a comma-separated string and the allowlist is
  not taken from a file (\<open>OF_SAFE_METRICS_FILE\<close> is unset or empty, or reading the
  allowlist from that file raises), it returns the set of the comma-separated entries
  with surrounding whitespace stripped and empty entries dropped.
\<close>

theorem read_allowlist_env:
  "(environ ''OF_SAFE_METRICS_FILE'' = None \<and> environ ''OF_SAFE_METRICS'' = None
      \<longrightarrow> snd (read_allowlist environ load) = {})
   \<and> ((environ ''OF_SAFE_METRICS_FILE'' = None
        \<or> environ ''OF_SAFE_METRICS_FILE'' = Some []
        \<or> (\<exists>path e. environ ''OF_SAFE_METRICS_FILE'' = Some path
              \<and> read_file_allowlist load path = Inl e))
       \<and> environ ''OF_SAFE_METRICS'' = Some env
      \<longrightarrow> snd (read_allowlist environ load)
          = HStr ` (strip ` set (split CHR '','' env) - {[]}))"
proof (intro conjI impI)
  assume "environ ''OF_SAFE_METRICS_FILE'' = None \<and> environ ''OF_SAFE_METRICS'' = None"
  then show "snd (read_allowlist environ load) = {}"
    by (simp add: read_allowlist_def read_env_allowlist_def)
next
  assume a: "(environ ''OF_SAFE_METRICS_FILE'' = None
        \<or> environ ''OF_SAFE_METRICS_FILE'' = Some []
        \<or> (\<exists>path e. environ ''OF_SAFE_METRICS_FILE'' = Some path
              \<and> read_file_allowlist load path = Inl e))
       \<and> environ ''OF_SAFE_METRICS'' = Some env"
  then have "snd (read_allowlist environ load) = read_env_allowlist environ"
    using read_allowlist_fallback by blast
  with a show "snd (read_allowlist environ load)
                 = HStr ` (strip ` set (split CHR '','' env) - {[]})"
    by (simp add: read_env_allowlist_Some parse_env_allowlist_set)
qed

theorem read_allowlist_env_witness:
  "Map.empty ''OF_SAFE_METRICS_FILE'' = (None :: string option)
   \<and> Map.empty ''OF_SAFE_METRICS'' = (None :: string option)
   \<and> snd (read_allowlist Map.empty no_files) = {}
   \<and> env_only ''OF_SAFE_METRICS_FILE'' = None
   \<and> env_only ''OF_SAFE_METRICS'' = Some ''metric1, metric2 , metric3''
   \<and> snd (read_allowlist env_only no_files)
       = {HStr ''metric1'', HStr ''metric2'', HStr ''metric3''}"
proof -
  have e: "env_only ''OF_SAFE_METRICS_FILE'' = None"
    "env_only ''OF_SAFE_METRICS'' = Some ''metric1, metric2 , metric3''"
    by (simp_all add: env_only_def)
  have 1: "snd (read_allowlist Map.empty no_files) = {}"
    using read_allowlist_env [of Map.empty no_files] by simp
  have "snd (read_allowlist env_only no_files)
          = HStr ` (strip ` set (split CHR '','' ''metric1, metric2 , metric3'') - {[]})"
    using read_allowlist_env [of env_only no_files "''metric1, metric2 , metric3''"] e
    by blast
  also have "\<dots> = {HStr ''metric1'', HStr ''metric2'', HStr ''metric3''}"
    by (simp add: strip_def isspace_def)
  finally show ?thesis using e 1 by simp
qed

text \<open>
  The second half of the claim as stated fails when the file variable is set too: with
  \<open>OF_SAFE_METRICS = metric1\<close> and a readable file listing \<open>frames_processed\<close> the result
  is the file's list, not the entries of the variable.
\<close>

theorem read_allowlist_env_counterexample:
  "env_and_file ''allow.yaml'' ''OF_SAFE_METRICS'' = Some ''metric1''
   \<and> HStr ` (strip ` set (split CHR '','' ''metric1'') - {[]}) = {HStr ''metric1''}
   \<and> snd (read_allowlist (env_and_file ''allow.yaml'') allowlist_files)
       = {HStr ''frames_processed''}
   \<and> snd (read_allowlist (env_and_file ''allow.yaml'') allowlist_files)
       \<noteq> {HStr ''metric1''}"
  by (simp add: allowlist_defs)

text \<open>
  C10, as amended: when \<open>OF_SAFE_METRICS_FILE\<close> is set to a non-empty path, whatever
  \<open>OF_SAFE_METRICS\<close> holds: if the file opens and parses to a mapping and the value under
  \<open>safe_metrics\<close> (the empty list when the key is absent) can be turned into a set, the
  result is that set, nothing is printed and the environment variable is ignored; if
  opening or parsing raises, or the document is not a mapping, or the value cannot be
  turned into a set, a warning is printed and the result is the one parsed from
  \<open>OF_SAFE_METRICS\<close>.
\<close>

theorem read_allowlist_file_first:
  assumes "environ ''OF_SAFE_METRICS_FILE'' = Some path" and "path \<noteq> []"
  shows "(\<forall>kvs s. load path = Inr (YDict kvs)
            \<and> py_set (case map_of kvs (YStr ''safe_metrics'') of
                         Some v \<Rightarrow> v | None \<Rightarrow> YList []) = Inr s
          \<longrightarrow> read_allowlist environ load = ([], s))
       \<and> (isl (load path)
           \<or> (\<exists>y. load path = Inr y \<and> isl (dict_get y ''safe_metrics'' (YList [])))
           \<or> (\<exists>kvs. load path = Inr (YDict kvs)
                 \<and> isl (py_set (case map_of kvs (YStr ''safe_metrics'') of
                                  Some v \<Rightarrow> v | None \<Rightarrow> YList [])))
          \<longrightarrow> read_allowlist environ load
                = ([Print_warning path], read_env_allowlist environ))"
proof (intro conjI allI impI)
  fix kvs s
  assume "load path = Inr (YDict kvs)
            \<and> py_set (case map_of kvs (YStr ''safe_metrics'') of
                         Some v \<Rightarrow> v | None \<Rightarrow> YList []) = Inr s"
  then show "read_allowlist environ load = ([], s)"
    using assms by (simp add: read_allowlist_def read_file_allowlist_def)
next
  assume f: "isl (load path)
           \<or> (\<exists>y. load path = Inr y \<and> isl (dict_get y ''safe_metrics'' (YList [])))
           \<or> (\<exists>kvs. load path = Inr (YDict kvs)
                 \<and> isl (py_set (case map_of kvs (YStr ''safe_metrics'') of
                                  Some v \<Rightarrow> v | None \<Rightarrow> YList [])))"
  have "isl (read_file_allowlist load path)"
    using f by (auto simp: read_file_allowlist_def isl_def split: sum.splits)
  then obtain e where "read_file_allowlist load path = Inl e"
    by (auto simp: isl_def)
  then show "read_allowlist environ load
                = ([Print_warning path], read_env_allowlist environ)"
    using assms by (simp add: read_allowlist_def)
qed

theorem read_allowlist_file_first_witness:
  "env_and_file ''allow.yaml'' ''OF_SAFE_METRICS_FILE'' = Some ''allow.yaml''
   \<and> ''allow.yaml'' \<noteq> []
   \<and> read_allowlist (env_and_file ''allow.yaml'') allowlist_files
       = ([], {HStr ''frames_processed''})
   \<and> env_and_file ''missing.yaml'' ''OF_SAFE_METRICS_FILE'' = Some ''missing.yaml''
   \<and> read_allowlist (env_and_file ''missing.yaml'') allowlist_files
       = ([Print_warning ''missing.yaml''], {HStr ''metric1''})"
proof -
  have h1: "env_and_file ''allow.yaml'' ''OF_SAFE_METRICS_FILE'' = Some ''allow.yaml''"
    and h1': "env_and_file ''missing.yaml'' ''OF_SAFE_METRICS_FILE'' = Some ''missing.yaml''"
    by (simp_all add: env_and_file_def)
  have h2: "''allow.yaml'' \<noteq> []" and h2': "''missing.yaml'' \<noteq> []" by simp_all
  have l: "allowlist_files ''allow.yaml''
             = Inr (YDict [(YStr ''safe_metrics'', YList [YStr ''frames_processed''])])"
    and l': "isl (allowlist_files ''missing.yaml'')"
    by (simp_all add: allowlist_files_def)
  have p: "py_set (case map_of [(YStr ''safe_metrics'', YList [YStr ''frames_processed''])]
                          (YStr ''safe_metrics'') of
                     Some v \<Rightarrow> v | None \<Rightarrow> YList [])
             = Inr {HStr ''frames_processed''}"
    by simp
  have a: "read_allowlist (env_and_file ''allow.yaml'') allowlist_files
             = ([], {HStr ''frames_processed''})"
    using read_allowlist_file_first
            [of "env_and_file ''allow.yaml''" "''allow.yaml''" allowlist_files, OF h1 h2] l p
    by blast
  have "read_allowlist (env_and_file ''missing.yaml'') allowlist_files
          = ([Print_warning ''missing.yaml''],
             read_env_allowlist (env_and_file ''missing.yaml''))"
    using read_allowlist_file_first
            [of "env_and_file ''missing.yaml''" "''missing.yaml''" allowlist_files, OF h1' h2'] l'
    by blast
  then have b: "read_allowlist (env_and_file ''missing.yaml'') allowlist_files
          = ([Print_warning ''missing.yaml''], {HStr ''metric1''})"
    by (simp add: read_env_allowlist_def parse_env_allowlist_def env_and_file_def strip_def
          isspace_def)
  from h1 h2 a h1' b show ?thesis by simp
qed

text \<open>
  The claim as stated fails in two ways. An empty YAML file opens and parses (to
  \<open>None\<close>), yet the function prints a warning and falls back to the environment
  variable. And when \<open>OF_SAFE_METRICS_FILE\<close> is set to the empty string, the file is not
  tried at all and the environment variable is used.
\<close>

theorem read_allowlist_file_first_counterexample:
  "env_and_file ''empty.yaml'' ''OF_SAFE_METRICS_FILE'' = Some ''empty.yaml''
   \<and> env_and_file ''empty.yaml'' ''OF_SAFE_METRICS'' = Some ''metric1''
   \<and> allowlist_files ''empty.yaml'' = Inr YNull
   \<and> read_allowlist (env_and_file ''empty.yaml'') allowlist_files
       = ([Print_warning ''empty.yaml''], {HStr ''metric1''})
   \<and> env_and_file [] ''OF_SAFE_METRICS_FILE'' = Some []
   \<and> read_allowlist (env_and_file []) allowlist_files = ([], {HStr ''metric1''})"
  by (simp add: allowlist_defs)

subsection \<open>Side-channel frames\<close>

lemma length_run_ticks: "length (run_ticks w ticks) = length ticks"
  by (induction ticks arbitrary: w) (simp_all add: filter_frame_def)

lemma run_ticks_nth:
  "k < length ticks
     \<Longrightarrow> filter_id (run_ticks w ticks ! k)
         = Some (case provided_ids (ticks ! k) of
                   i # rest \<Rightarrow> i
                 | [] \<Rightarrow> int (frame_counter w + k))"
proof (induction ticks arbitrary: w k)
  case Nil
  then show ?case by simp
next
  case (Cons frames ticks)
  show ?case
  proof (cases k)
    case 0
    then show ?thesis
      by (simp add: filter_frame_def filter_id_def split: list.splits)
  next
    case (Suc j)
    with Cons.prems have j: "j < length ticks" by simp
    have "filter_id (run_ticks (w\<lparr>frame_counter := frame_counter w + 1\<rparr>) ticks ! j)
            = Some (case provided_ids (ticks ! j) of
                      i # rest \<Rightarrow> i
                    | [] \<Rightarrow> int (frame_counter (w\<lparr>frame_counter := frame_counter w + 1\<rparr>) + j))"
      by (rule Cons.IH [OF j])
    then show ?thesis
      using Suc by (simp add: filter_frame_def split: list.splits)
  qed
qed

text \<open>
  C5: a new worker emits one \<open>_filter\<close> frame per tick, and the \<open>id\<close> of the frame of
  tick \<open>k\<close> (counted from 0) is the \<open>meta.id\<close> of the input when an input frame of that
  tick provides one, and otherwise \<open>k\<close>: the value of the worker's counter, which starts
  at 0 and has increased by 1 with every tick before, whether or not those ticks carried
  a \<open>meta.id\<close>.
\<close>

theorem filter_frame_id:
  "length (run_ticks new_worker ticks) = length ticks
   \<and> (\<forall>k < length ticks.
         filter_id (run_ticks new_worker ticks ! k)
           = Some (case provided_ids (ticks ! k) of
                     i # rest \<Rightarrow> i
                   | [] \<Rightarrow> int k))"
proof (intro conjI allI impI)
  show "length (run_ticks new_worker ticks) = length ticks"
    by (rule length_run_ticks)
next
  fix k
  assume "k < length ticks"
  from run_ticks_nth [OF this, of new_worker]
  show "filter_id (run_ticks new_worker ticks ! k)
          = Some (case provided_ids (ticks ! k) of i # rest \<Rightarrow> i | [] \<Rightarrow> int k)"
    by (simp add: new_worker_def split: list.splits)
qed

text \<open>
  The theorem on a run of three ticks, the first with \<open>meta.id = 42\<close> and the next two
  without: the emitted ids are 42, 1 and 2.
\<close>

theorem filter_frame_id_witness:
  "provided_ids [(''main'', frame_with_id)] = [42]
   \<and> provided_ids [(''main'', frame_without_id)] = []
   \<and> map filter_id
        (run_ticks new_worker
           [[(''main'', frame_with_id)], [(''main'', frame_without_id)],
            [(''main'', frame_without_id)]])
       = [Some 42, Some 1, Some 2]"
proof -
  let ?ticks = "[[(''main'', frame_with_id)], [(''main'', frame_without_id)],
                 [(''main'', frame_without_id)]]"
  have p: "provided_ids [(''main'', frame_with_id)] = [42]"
    and q: "provided_ids [(''main'', frame_without_id)] = []"
    by (simp_all add: provided_ids_def frame_with_id_def frame_without_id_def)
  note t = filter_frame_id [of ?ticks]
  have len: "length (run_ticks new_worker ?ticks) = 3"
    using t by simp
  have k0: "filter_id (run_ticks new_worker ?ticks ! 0) = Some 42"
    using t p by simp
  have k1: "filter_id (run_ticks new_worker ?ticks ! 1) = Some 1"
    using t q by simp
  have "(2::nat) < length ?ticks" by simp
  then have "filter_id (run_ticks new_worker ?ticks ! 2)
               = Some (case provided_ids (?ticks ! 2) of i # rest \<Rightarrow> i | [] \<Rightarrow> int 2)"
    using t by blast
  then have k2: "filter_id (run_ticks new_worker ?ticks ! 2) = Some 2"
    using q by simp
  obtain a b c where abc: "run_ticks new_worker ?ticks = [a, b, c]"
    using len by (auto simp: length_Suc_conv numeral_3_eq_3)
  have "map filter_id (run_ticks new_worker ?ticks) = [Some 42, Some 1, Some 2]"
    using k0 k1 k2 unfolding abc by simp
  with p q show ?thesis by blast
qed

text \<open>
  C6: the data map of a \<open>_metrics\<close> frame has all nine keys \<open>ts\<close>, \<open>fps\<close>, \<open>cpu\<close>,
  \<open>mem\<close>, \<open>lat_in\<close>, \<open>lat_out\<close>, \<open>uptime_count\<close>, \<open>frame_count\<close> and \<open>megapx_count\<close>,
  whatever the sample and the extra metrics merged into it.
\<close>

theorem metrics_data_keys:
  "{''ts'', ''fps'', ''cpu'', ''mem'', ''lat_in'', ''lat_out'', ''uptime_count'',
    ''frame_count'', ''megapx_count''} \<subseteq> dom (metrics_data smp extra_metrics)"
  by (simp add: metrics_data_def dom_map_add)

end
